theory Spec2Isabelle
  imports Main "HOL-Library.Finite_Map" "HOL-Library.List_Lexorder" "HOL-Library.Char_ord"
begin

section \<open>Go values\<close>

text \<open>
  An \<open>error\<close> is a Go error value; \<open>nil\<close> is \<open>None\<close> of \<open>error option\<close>, and a
  function returning \<open>(T, error)\<close> returns \<open>error + T\<close>. \<open>ErrNotExist\<close> is the error
  that \<open>os.IsNotExist\<close> recognises. A run-time panic (a slice bound out of range) is
  carried as \<open>Panic\<close>, so that it stays a branch of the model.
\<close>

datatype error = ErrNotExist | Error string | Panic string

definition os_IsNotExist :: "error option \<Rightarrow> bool" where
  "os_IsNotExist err = (err = Some ErrNotExist)"

text \<open>
  A decoded JSON document, Go's \<open>interface{}\<close> after \<open>json.Unmarshal\<close>. An object
  (\<open>map[string]interface{}\<close>) is an association list read with \<open>map_of\<close>. The code
  never inspects a number.
\<close>

datatype json =
    JNull
  | JBool bool
  | JNumber int
  | JString string
  | JArray "json list"
  | JObject "(string \<times> json) list"

type_synonym json_object = "(string \<times> json) list"

text \<open>The type assertions \<open>v.(string)\<close>, \<open>v.(bool)\<close>, \<open>v.([]interface{})\<close> and
  \<open>v.(map[string]interface{})\<close> in their two-result form: \<open>None\<close> is \<open>ok = false\<close>.\<close>

fun assert_string :: "json option \<Rightarrow> string option" where
  "assert_string (Some (JString s)) = Some s"
| "assert_string _ = None"

fun assert_bool :: "json option \<Rightarrow> bool option" where
  "assert_bool (Some (JBool b)) = Some b"
| "assert_bool _ = None"

fun assert_array :: "json option \<Rightarrow> json list option" where
  "assert_array (Some (JArray xs)) = Some xs"
| "assert_array _ = None"

fun assert_object :: "json option \<Rightarrow> json_object option" where
  "assert_object (Some (JObject kvs)) = Some kvs"
| "assert_object _ = None"

definition getString :: "json_object \<Rightarrow> string \<Rightarrow> string" where
  "getString m key = (case assert_string (map_of m key) of Some val \<Rightarrow> val | None \<Rightarrow> [])"

definition getBool :: "json_object \<Rightarrow> string \<Rightarrow> bool" where
  "getBool m key = (case assert_bool (map_of m key) of Some val \<Rightarrow> val | None \<Rightarrow> False)"

section \<open>Formatting\<close>

text \<open>
  \<open>%d\<close> of a non-negative \<open>int\<close>. The counters of this program start at 0 or 1 and
  are only incremented, once per map entry or list element at most, so they stay far
  below \<open>2^63\<close> and are natural numbers here.
\<close>

definition digits :: string where
  "digits = ''0123456789''"

fun itoa :: "nat \<Rightarrow> string" where
  "itoa n = (if n < 10 then [digits ! n] else itoa (n div 10) @ [digits ! (n mod 10)])"

declare itoa.simps [simp del]

text \<open>\<open>fmt.Sprintf("%s_%d", name, counter)\<close>\<close>

definition sprintf_s_d :: "string \<Rightarrow> nat \<Rightarrow> string" where
  "sprintf_s_d name counter = name @ ''_'' @ itoa counter"

text \<open>\<open>fmt.Sprintf("%s.pbix", name)\<close>\<close>

definition sprintf_pbix :: "string \<Rightarrow> string" where
  "sprintf_pbix name = name @ ''.pbix''"

text \<open>
  A \<open>time.Time\<close> as its civil fields, and \<open>Format("2006-01-02_15-04-05")\<close>: every field
  zero-padded to two digits, the year to four.
\<close>

record time =
  year :: nat
  month :: nat
  day :: nat
  hour :: nat
  minute :: nat
  second :: nat

definition pad2 :: "nat \<Rightarrow> string" where
  "pad2 n = (if n < 10 then ''0'' @ itoa n else itoa n)"

definition pad4 :: "nat \<Rightarrow> string" where
  "pad4 n = replicate (4 - length (itoa n)) (CHR ''0'') @ itoa n"

definition Format :: "time \<Rightarrow> string" where
  "Format t = pad4 (year t) @ ''-'' @ pad2 (month t) @ ''-'' @ pad2 (day t) @ ''_''
              @ pad2 (hour t) @ ''-'' @ pad2 (minute t) @ ''-'' @ pad2 (second t)"

section \<open>Paths\<close>

text \<open>
  \<open>path/filepath\<close> with the separator \<open>/\<close>. \<open>filepath.Join\<close> drops empty elements,
  joins the rest with the separator and cleans the result lexically
  (\<open>filepath.Clean\<close>): empty and \<open>.\<close> elements go, \<open>..\<close> removes the element before
  it, and \<open>..\<close> at the start of a rooted path goes.
\<close>

fun split_sep :: "string \<Rightarrow> string list" where
  "split_sep [] = [[]]"
| "split_sep (c # cs) =
     (if c = CHR ''/'' then [] # split_sep cs
      else (case split_sep cs of [] \<Rightarrow> [[c]] | e # es \<Rightarrow> (c # e) # es))"

fun join_sep :: "string list \<Rightarrow> string" where
  "join_sep [] = []"
| "join_sep [e] = e"
| "join_sep (e # es) = e @ ''/'' @ join_sep es"

fun clean_elems :: "bool \<Rightarrow> string list \<Rightarrow> string list \<Rightarrow> string list" where
  "clean_elems rooted out [] = rev out"
| "clean_elems rooted out (e # es) =
     (if e = [] \<or> e = ''.'' then clean_elems rooted out es
      else if e = ''..'' then
        (case out of
           [] \<Rightarrow> if rooted then clean_elems rooted [] es else clean_elems rooted [''..''] es
         | t # ts \<Rightarrow> if t = ''..'' then clean_elems rooted (''..'' # out) es
                     else clean_elems rooted ts es)
      else clean_elems rooted (e # out) es)"

definition filepath_Clean :: "string \<Rightarrow> string" where
  "filepath_Clean path =
     (let rooted = (path \<noteq> [] \<and> hd path = CHR ''/'');
          body = join_sep (clean_elems rooted [] (split_sep path))
      in if rooted then ''/'' @ body else if body = [] then ''.'' else body)"

definition filepath_Join :: "string list \<Rightarrow> string" where
  "filepath_Join elem =
     (let nonempty = filter (\<lambda>e. e \<noteq> []) elem
      in if nonempty = [] then [] else filepath_Clean (join_sep nonempty))"

text \<open>\<open>filepath.Base\<close>: the last element, trailing separators removed first.\<close>

definition filepath_Base :: "string \<Rightarrow> string" where
  "filepath_Base path =
     (if path = [] then ''.''
      else let stripped = rev (dropWhile (\<lambda>c. c = CHR ''/'') (rev path));
               base = rev (takeWhile (\<lambda>c. c \<noteq> CHR ''/'') (rev stripped))
           in if base = [] then ''/'' else base)"

section \<open>Data model (internal/models)\<close>

record ReportPage =
  ReportPage_Name :: string
  ReportPage_DisplayName :: string
  ReportPage_Order :: int

record Report =
  Report_ID :: string
  Report_Name :: string
  Report_DatasetID :: string
  Report_EmbedURL :: string
  Report_WebURL :: string
  Report_Pages :: "ReportPage list"

record Dataset =
  Dataset_ID :: string
  Dataset_Name :: string
  Dataset_ConfigRefreshType :: "string option"
  Dataset_IsRefreshable :: bool
  Dataset_IsEffectiveIdentityRequired :: bool
  Dataset_IsEffectiveIdentityRolesRequired :: bool

record Dataflow =
  Dataflow_ObjectID :: string
  Dataflow_Name :: string
  Dataflow_Description :: "string option"

record Dashboard =
  Dashboard_ID :: string
  Dashboard_DisplayName :: string
  Dashboard_IsReadOnly :: bool
  Dashboard_EmbedURL :: string

record App =
  App_ID :: string
  App_Name :: string
  App_WorkspaceID :: string

record RefreshSchedule =
  DatasetID :: string
  DatasetName :: string
  Schedule :: json_object

record WorkspaceSettings =
  WorkspaceSettings_ID :: string
  WorkspaceSettings_Name :: string
  WorkspaceSettings_Type :: string
  WorkspaceSettings_State :: string
  WorkspaceSettings_IsReadOnly :: bool
  WorkspaceSettings_Settings :: json_object

record CompleteBackup =
  Timestamp :: time
  WorkspaceID :: string
  WorkspaceName :: string
  Reports :: "Report list"
  Datasets :: "Dataset list"
  Dataflows :: "Dataflow list"
  Dashboards :: "Dashboard list"
  Apps :: "App list"
  RefreshSchedules :: "RefreshSchedule list"
  WorkspaceSettings :: WorkspaceSettings

section \<open>The outside world\<close>

text \<open>
  Every call that leaves the program (the operating system's file operations and the
  methods of \<open>api.Client\<close>, the remote API surface) is recorded, in order, in a trace:
  the call with its arguments, and whether it returned without an error (for
  \<open>ExportReport\<close> and \<open>ImportPBIX\<close>: a nil error and \<open>success = true\<close>). What a call
  returns is decided by the environment from the trace so far and the call's
  arguments: the environment is any deterministic world, and a call may give
  different results at different moments of a run.
\<close>

datatype call =
    Call_MkdirAll string
  | Call_Stat string
  | Call_Glob string
  | Call_ReadDir string
  | Call_ReadFile string
  | Call_WriteFile string string
  | Call_GetWorkspaceSettings string
  | Call_GetReports string
  | Call_GetDatasets string
  | Call_GetDataflows string
  | Call_GetDashboards string
  | Call_GetApps
  | Call_GetRefreshSchedule string string
  | Call_UpdateRefreshSchedule string string json_object
  | Call_ExportReport string string string
  | Call_ImportPBIX string string string

type_synonym trace = "(call \<times> bool) list"

text \<open>The values handed to \<open>json.MarshalIndent\<close>.\<close>

datatype payload =
    Payload_CompleteBackup CompleteBackup
  | Payload_Reports "Report list"
  | Payload_Datasets "Dataset list"
  | Payload_Dataflows "Dataflow list"
  | Payload_Dashboards "Dashboard list"
  | Payload_Apps "App list"
  | Payload_RefreshSchedules "RefreshSchedule list"
  | Payload_WorkspaceSettings WorkspaceSettings

text \<open>
  A directory entry of \<open>os.ReadDir\<close>: its name and \<open>IsDir()\<close>. \<open>os.ReadDir\<close> and
  \<open>filepath.Glob\<close> return their entries sorted by name; an environment is free to
  return any list here, and the simulated file system below sorts.
\<close>

type_synonym DirEntry = "string \<times> bool"

record env =
  MkdirAll_result :: "trace \<Rightarrow> string \<Rightarrow> error option"
  Stat_result :: "trace \<Rightarrow> string \<Rightarrow> error option"
  Glob_result :: "trace \<Rightarrow> string \<Rightarrow> error + string list"
  ReadDir_result :: "trace \<Rightarrow> string \<Rightarrow> error + DirEntry list"
  ReadFile_result :: "trace \<Rightarrow> string \<Rightarrow> error + string"
  WriteFile_result :: "trace \<Rightarrow> string \<Rightarrow> string \<Rightarrow> error option"
  MarshalIndent_result :: "payload \<Rightarrow> error + string"
  Unmarshal_result :: "string \<Rightarrow> error + CompleteBackup"
  GetWorkspaceSettings_result :: "trace \<Rightarrow> string \<Rightarrow> error + json_object"
  GetReports_result :: "trace \<Rightarrow> string \<Rightarrow> error + json_object"
  GetDatasets_result :: "trace \<Rightarrow> string \<Rightarrow> error + json_object"
  GetDataflows_result :: "trace \<Rightarrow> string \<Rightarrow> error + json_object"
  GetDashboards_result :: "trace \<Rightarrow> string \<Rightarrow> error + json_object"
  GetApps_result :: "trace \<Rightarrow> error + json_object"
  GetRefreshSchedule_result :: "trace \<Rightarrow> string \<Rightarrow> string \<Rightarrow> error + json_object"
  UpdateRefreshSchedule_result :: "trace \<Rightarrow> string \<Rightarrow> string \<Rightarrow> json_object \<Rightarrow> error option"
  ExportReport_result :: "trace \<Rightarrow> string \<Rightarrow> string \<Rightarrow> string \<Rightarrow> bool \<times> error option"
  ImportPBIX_result :: "trace \<Rightarrow> string \<Rightarrow> string \<Rightarrow> string \<Rightarrow> bool \<times> error option"

text \<open>Each call returns the environment's answer and the trace extended by the call
  and its outcome.\<close>

definition returned_nil :: "error option \<Rightarrow> bool" where
  "returned_nil err = (err = None)"

definition returned_value :: "error + 'a \<Rightarrow> bool" where
  "returned_value r = (case r of Inl err \<Rightarrow> False | Inr v \<Rightarrow> True)"

definition returned_success :: "bool \<times> error option \<Rightarrow> bool" where
  "returned_success r = (case r of (success, err) \<Rightarrow> err = None \<and> success)"

definition os_MkdirAll :: "env \<Rightarrow> string \<Rightarrow> trace \<Rightarrow> error option \<times> trace" where
  "os_MkdirAll e path tr = (let r = MkdirAll_result e tr path in (r, tr @ [(Call_MkdirAll path, returned_nil r)]))"

definition os_Stat :: "env \<Rightarrow> string \<Rightarrow> trace \<Rightarrow> error option \<times> trace" where
  "os_Stat e path tr = (let r = Stat_result e tr path in (r, tr @ [(Call_Stat path, returned_nil r)]))"

definition filepath_Glob :: "env \<Rightarrow> string \<Rightarrow> trace \<Rightarrow> (error + string list) \<times> trace" where
  "filepath_Glob e pattern tr = (let r = Glob_result e tr pattern in (r, tr @ [(Call_Glob pattern, returned_value r)]))"

definition os_ReadDir :: "env \<Rightarrow> string \<Rightarrow> trace \<Rightarrow> (error + DirEntry list) \<times> trace" where
  "os_ReadDir e path tr = (let r = ReadDir_result e tr path in (r, tr @ [(Call_ReadDir path, returned_value r)]))"

definition os_ReadFile :: "env \<Rightarrow> string \<Rightarrow> trace \<Rightarrow> (error + string) \<times> trace" where
  "os_ReadFile e path tr = (let r = ReadFile_result e tr path in (r, tr @ [(Call_ReadFile path, returned_value r)]))"

definition os_WriteFile :: "env \<Rightarrow> string \<Rightarrow> string \<Rightarrow> trace \<Rightarrow> error option \<times> trace" where
  "os_WriteFile e path data tr = (let r = WriteFile_result e tr path data in (r, tr @ [(Call_WriteFile path data, returned_nil r)]))"

definition GetWorkspaceSettings :: "env \<Rightarrow> string \<Rightarrow> trace \<Rightarrow> (error + json_object) \<times> trace" where
  "GetWorkspaceSettings e workspaceID tr =
     (let r = GetWorkspaceSettings_result e tr workspaceID
      in (r, tr @ [(Call_GetWorkspaceSettings workspaceID, returned_value r)]))"

definition GetReports :: "env \<Rightarrow> string \<Rightarrow> trace \<Rightarrow> (error + json_object) \<times> trace" where
  "GetReports e workspaceID tr = (let r = GetReports_result e tr workspaceID in (r, tr @ [(Call_GetReports workspaceID, returned_value r)]))"

definition GetDatasets :: "env \<Rightarrow> string \<Rightarrow> trace \<Rightarrow> (error + json_object) \<times> trace" where
  "GetDatasets e workspaceID tr = (let r = GetDatasets_result e tr workspaceID in (r, tr @ [(Call_GetDatasets workspaceID, returned_value r)]))"

definition GetDataflows :: "env \<Rightarrow> string \<Rightarrow> trace \<Rightarrow> (error + json_object) \<times> trace" where
  "GetDataflows e workspaceID tr = (let r = GetDataflows_result e tr workspaceID in (r, tr @ [(Call_GetDataflows workspaceID, returned_value r)]))"

definition GetDashboards :: "env \<Rightarrow> string \<Rightarrow> trace \<Rightarrow> (error + json_object) \<times> trace" where
  "GetDashboards e workspaceID tr = (let r = GetDashboards_result e tr workspaceID in (r, tr @ [(Call_GetDashboards workspaceID, returned_value r)]))"

definition GetApps :: "env \<Rightarrow> trace \<Rightarrow> (error + json_object) \<times> trace" where
  "GetApps e tr = (let r = GetApps_result e tr in (r, tr @ [(Call_GetApps, returned_value r)]))"

definition GetRefreshSchedule :: "env \<Rightarrow> string \<Rightarrow> string \<Rightarrow> trace \<Rightarrow> (error + json_object) \<times> trace" where
  "GetRefreshSchedule e workspaceID datasetID tr =
     (let r = GetRefreshSchedule_result e tr workspaceID datasetID
      in (r, tr @ [(Call_GetRefreshSchedule workspaceID datasetID, returned_value r)]))"

definition UpdateRefreshSchedule :: "env \<Rightarrow> string \<Rightarrow> string \<Rightarrow> json_object \<Rightarrow> trace \<Rightarrow> error option \<times> trace" where
  "UpdateRefreshSchedule e workspaceID datasetID schedule tr =
     (let r = UpdateRefreshSchedule_result e tr workspaceID datasetID schedule
      in (r, tr @ [(Call_UpdateRefreshSchedule workspaceID datasetID schedule, returned_nil r)]))"

definition ExportReport :: "env \<Rightarrow> string \<Rightarrow> string \<Rightarrow> string \<Rightarrow> trace \<Rightarrow> (bool \<times> error option) \<times> trace" where
  "ExportReport e workspaceID reportID outputPath tr =
     (let r = ExportReport_result e tr workspaceID reportID outputPath
      in (r, tr @ [(Call_ExportReport workspaceID reportID outputPath, returned_success r)]))"

definition ImportPBIX :: "env \<Rightarrow> string \<Rightarrow> string \<Rightarrow> string \<Rightarrow> trace \<Rightarrow> (bool \<times> error option) \<times> trace" where
  "ImportPBIX e workspaceID pbixPath datasetName tr =
     (let r = ImportPBIX_result e tr workspaceID pbixPath datasetName
      in (r, tr @ [(Call_ImportPBIX workspaceID pbixPath datasetName, returned_success r)]))"

text \<open>Reading a trace: the import attempts, the names given to the imports that
  succeeded, the update calls and the export calls.\<close>

fun is_import :: "call \<Rightarrow> bool" where
  "is_import (Call_ImportPBIX workspaceID pbixPath datasetName) = True"
| "is_import c = False"

fun is_update :: "call \<Rightarrow> bool" where
  "is_update (Call_UpdateRefreshSchedule workspaceID datasetID schedule) = True"
| "is_update c = False"

fun is_export :: "call \<Rightarrow> bool" where
  "is_export (Call_ExportReport workspaceID reportID outputPath) = True"
| "is_export c = False"

fun is_get_schedule :: "call \<Rightarrow> bool" where
  "is_get_schedule (Call_GetRefreshSchedule workspaceID datasetID) = True"
| "is_get_schedule c = False"

fun is_mkdir :: "call \<Rightarrow> bool" where
  "is_mkdir (Call_MkdirAll path) = True"
| "is_mkdir c = False"

fun is_write :: "call \<Rightarrow> bool" where
  "is_write (Call_WriteFile path data) = True"
| "is_write c = False"

definition import_attempts :: "trace \<Rightarrow> call list" where
  "import_attempts tr = filter is_import (map fst tr)"

fun import_name :: "call \<Rightarrow> string" where
  "import_name (Call_ImportPBIX workspaceID pbixPath datasetName) = datasetName"
| "import_name c = []"


definition final_names :: "trace \<Rightarrow> string list" where
  "final_names tr = map import_name (import_attempts tr)"

definition imported_names :: "trace \<Rightarrow> string list" where
  "imported_names tr = map (import_name \<circ> fst) (filter (\<lambda>ev. is_import (fst ev) \<and> snd ev) tr)"

section \<open>Snapshot store (internal/storage/storage.go)\<close>

record StorageService =
  StorageService_backupPath :: string

definition GetBackupPath :: "StorageService \<Rightarrow> string" where
  "GetBackupPath s = StorageService_backupPath s"

text \<open>The directory of one backup run: \<open>filepath.Join(backupPath, workspaceID, timestamp)\<close>,
  as \<open>BackupWorkspace\<close> and \<open>SaveBackup\<close> both compute it.\<close>

definition runDir :: "StorageService \<Rightarrow> string \<Rightarrow> time \<Rightarrow> string" where
  "runDir s workspaceID backupTime = filepath_Join [GetBackupPath s, workspaceID, Format backupTime]"

text \<open>\<open>saveComponent\<close>: marshal, then write; either error is returned.\<close>

definition saveComponent :: "env \<Rightarrow> string \<Rightarrow> string \<Rightarrow> payload \<Rightarrow> trace \<Rightarrow> error option \<times> trace" where
  "saveComponent e dir filename data tr =
     (let filePath = filepath_Join [dir, filename]
      in case MarshalIndent_result e data of
           Inl err \<Rightarrow> (Some err, tr)
         | Inr jsonData \<Rightarrow>
             (case os_WriteFile e filePath jsonData tr of
                (Some err, tr1) \<Rightarrow> (Some err, tr1)
              | (None, tr1) \<Rightarrow> (None, tr1)))"

text \<open>
  \<open>SaveBackup\<close>: the run directory, the complete backup as one file, then one file
  per collection. The results of the seven \<open>saveComponent\<close> calls are dropped, as in
  the source.
\<close>

definition SaveBackup :: "env \<Rightarrow> StorageService \<Rightarrow> CompleteBackup \<Rightarrow> trace \<Rightarrow> (error + string) \<times> trace" where
  "SaveBackup e s backup tr =
     (let timestamp = Format (Timestamp backup);
          backupDir = filepath_Join [StorageService_backupPath s, WorkspaceID backup, timestamp]
      in case os_MkdirAll e backupDir tr of
           (Some err, tr1) \<Rightarrow> (Inl err, tr1)
         | (None, tr1) \<Rightarrow>
             (let backupFile = filepath_Join [backupDir, ''complete_backup.json'']
              in case MarshalIndent_result e (Payload_CompleteBackup backup) of
                   Inl err \<Rightarrow> (Inl err, tr1)
                 | Inr data \<Rightarrow>
                     (case os_WriteFile e backupFile data tr1 of
                        (Some err, tr2) \<Rightarrow> (Inl err, tr2)
                      | (None, tr2) \<Rightarrow>
                          (let tr3 = snd (saveComponent e backupDir ''reports.json'' (Payload_Reports (Reports backup)) tr2);
                               tr4 = snd (saveComponent e backupDir ''datasets.json'' (Payload_Datasets (Datasets backup)) tr3);
                               tr5 = snd (saveComponent e backupDir ''dataflows.json'' (Payload_Dataflows (Dataflows backup)) tr4);
                               tr6 = snd (saveComponent e backupDir ''dashboards.json'' (Payload_Dashboards (Dashboards backup)) tr5);
                               tr7 = snd (saveComponent e backupDir ''apps.json'' (Payload_Apps (Apps backup)) tr6);
                               tr8 = snd (saveComponent e backupDir ''refresh_schedules.json'' (Payload_RefreshSchedules (RefreshSchedules backup)) tr7);
                               tr9 = snd (saveComponent e backupDir ''workspace_settings.json'' (Payload_WorkspaceSettings (WorkspaceSettings backup)) tr8)
                           in (Inr backupDir, tr9)))))"

definition LoadBackup :: "env \<Rightarrow> string \<Rightarrow> trace \<Rightarrow> (error + CompleteBackup) \<times> trace" where
  "LoadBackup e backupPath tr =
     (let backupFile = filepath_Join [backupPath, ''complete_backup.json'']
      in case os_ReadFile e backupFile tr of
           (Inl err, tr1) \<Rightarrow> (Inl err, tr1)
         | (Inr data, tr1) \<Rightarrow>
             (case Unmarshal_result e data of
                Inl err \<Rightarrow> (Inl err, tr1)
              | Inr backup \<Rightarrow> (Inr backup, tr1)))"

text \<open>\<open>ListBackups\<close>: every directory entry of the workspace directory that is a
  directory, as a path.\<close>

definition ListBackups :: "env \<Rightarrow> StorageService \<Rightarrow> string \<Rightarrow> trace \<Rightarrow> (error + string list) \<times> trace" where
  "ListBackups e s workspaceID tr =
     (let workspaceDir = filepath_Join [StorageService_backupPath s, workspaceID]
      in case os_Stat e workspaceDir tr of
           (err, tr1) \<Rightarrow>
             if os_IsNotExist err then (Inr [], tr1)
             else (case os_ReadDir e workspaceDir tr1 of
                     (Inl err, tr2) \<Rightarrow> (Inl err, tr2)
                   | (Inr entries, tr2) \<Rightarrow>
                       (Inr (map (\<lambda>entry. filepath_Join [workspaceDir, fst entry])
                               (filter (\<lambda>entry. snd entry) entries)), tr2)))"

definition GetLatestBackup :: "env \<Rightarrow> StorageService \<Rightarrow> string \<Rightarrow> trace \<Rightarrow> (error + string) \<times> trace" where
  "GetLatestBackup e s workspaceID tr =
     (case ListBackups e s workspaceID tr of
        (Inl err, tr1) \<Rightarrow> (Inl err, tr1)
      | (Inr backups, tr1) \<Rightarrow>
          if length backups = 0
          then (Inl (Error (''no backups found for workspace: '' @ workspaceID)), tr1)
          else (Inr (backups ! (length backups - 1)), tr1))"

section \<open>Backup orchestrator (internal/backup)\<close>

text \<open>The loops of the five list fetches: an item that is not an object is skipped.\<close>

fun reportsOf :: "json list \<Rightarrow> Report list" where
  "reportsOf [] = []"
| "reportsOf (item # val) =
     (case assert_object (Some item) of
        None \<Rightarrow> reportsOf val
      | Some reportMap \<Rightarrow>
          \<lparr>Report_ID = getString reportMap ''id'',
           Report_Name = getString reportMap ''name'',
           Report_DatasetID = getString reportMap ''datasetId'',
           Report_EmbedURL = getString reportMap ''embedUrl'',
           Report_WebURL = getString reportMap ''webUrl'',
           Report_Pages = []\<rparr> # reportsOf val)"

definition backupReports :: "env \<Rightarrow> string \<Rightarrow> trace \<Rightarrow> (error + Report list) \<times> trace" where
  "backupReports e workspaceID tr =
     (case GetReports e workspaceID tr of
        (Inl err, tr1) \<Rightarrow> (Inl err, tr1)
      | (Inr response, tr1) \<Rightarrow>
          (case assert_array (map_of response ''value'') of
             None \<Rightarrow> (Inr [], tr1)
           | Some val \<Rightarrow> (Inr (reportsOf val), tr1)))"

fun datasetsOf :: "json list \<Rightarrow> Dataset list" where
  "datasetsOf [] = []"
| "datasetsOf (item # val) =
     (case assert_object (Some item) of
        None \<Rightarrow> datasetsOf val
      | Some datasetMap \<Rightarrow>
          \<lparr>Dataset_ID = getString datasetMap ''id'',
           Dataset_Name = getString datasetMap ''name'',
           Dataset_ConfigRefreshType = None,
           Dataset_IsRefreshable = getBool datasetMap ''isRefreshable'',
           Dataset_IsEffectiveIdentityRequired = getBool datasetMap ''isEffectiveIdentityRequired'',
           Dataset_IsEffectiveIdentityRolesRequired = getBool datasetMap ''isEffectiveIdentityRolesRequired''\<rparr>
          # datasetsOf val)"

definition backupDatasets :: "env \<Rightarrow> string \<Rightarrow> trace \<Rightarrow> (error + Dataset list) \<times> trace" where
  "backupDatasets e workspaceID tr =
     (case GetDatasets e workspaceID tr of
        (Inl err, tr1) \<Rightarrow> (Inl err, tr1)
      | (Inr response, tr1) \<Rightarrow>
          (case assert_array (map_of response ''value'') of
             None \<Rightarrow> (Inr [], tr1)
           | Some val \<Rightarrow> (Inr (datasetsOf val), tr1)))"

fun dataflowsOf :: "json list \<Rightarrow> Dataflow list" where
  "dataflowsOf [] = []"
| "dataflowsOf (item # val) =
     (case assert_object (Some item) of
        None \<Rightarrow> dataflowsOf val
      | Some dataflowMap \<Rightarrow>
          \<lparr>Dataflow_ObjectID = getString dataflowMap ''objectId'',
           Dataflow_Name = getString dataflowMap ''name'',
           Dataflow_Description = None\<rparr> # dataflowsOf val)"

definition backupDataflows :: "env \<Rightarrow> string \<Rightarrow> trace \<Rightarrow> (error + Dataflow list) \<times> trace" where
  "backupDataflows e workspaceID tr =
     (case GetDataflows e workspaceID tr of
        (Inl err, tr1) \<Rightarrow> (Inl err, tr1)
      | (Inr response, tr1) \<Rightarrow>
          (case assert_array (map_of response ''value'') of
             None \<Rightarrow> (Inr [], tr1)
           | Some val \<Rightarrow> (Inr (dataflowsOf val), tr1)))"

fun dashboardsOf :: "json list \<Rightarrow> Dashboard list" where
  "dashboardsOf [] = []"
| "dashboardsOf (item # val) =
     (case assert_object (Some item) of
        None \<Rightarrow> dashboardsOf val
      | Some dashboardMap \<Rightarrow>
          \<lparr>Dashboard_ID = getString dashboardMap ''id'',
           Dashboard_DisplayName = getString dashboardMap ''displayName'',
           Dashboard_IsReadOnly = getBool dashboardMap ''isReadOnly'',
           Dashboard_EmbedURL = getString dashboardMap ''embedUrl''\<rparr> # dashboardsOf val)"

definition backupDashboards :: "env \<Rightarrow> string \<Rightarrow> trace \<Rightarrow> (error + Dashboard list) \<times> trace" where
  "backupDashboards e workspaceID tr =
     (case GetDashboards e workspaceID tr of
        (Inl err, tr1) \<Rightarrow> (Inl err, tr1)
      | (Inr response, tr1) \<Rightarrow>
          (case assert_array (map_of response ''value'') of
             None \<Rightarrow> (Inr [], tr1)
           | Some val \<Rightarrow> (Inr (dashboardsOf val), tr1)))"

text \<open>Apps: only those of this workspace are kept.\<close>

fun appsOf :: "string \<Rightarrow> json list \<Rightarrow> App list" where
  "appsOf workspaceID [] = []"
| "appsOf workspaceID (item # val) =
     (case assert_object (Some item) of
        None \<Rightarrow> appsOf workspaceID val
      | Some appMap \<Rightarrow>
          if getString appMap ''workspaceId'' \<noteq> workspaceID then appsOf workspaceID val
          else \<lparr>App_ID = getString appMap ''id'',
                App_Name = getString appMap ''name'',
                App_WorkspaceID = getString appMap ''workspaceId''\<rparr> # appsOf workspaceID val)"

text \<open>\<open>backupApps\<close>: a failed fetch returns the empty list and a nil error.\<close>

definition backupApps :: "env \<Rightarrow> string \<Rightarrow> trace \<Rightarrow> (error + App list) \<times> trace" where
  "backupApps e workspaceID tr =
     (case GetApps e tr of
        (Inl err, tr1) \<Rightarrow> (Inr [], tr1)
      | (Inr response, tr1) \<Rightarrow>
          (case assert_array (map_of response ''value'') of
             None \<Rightarrow> (Inr [], tr1)
           | Some val \<Rightarrow> (Inr (appsOf workspaceID val), tr1)))"

text \<open>The loop of \<open>backupRefreshSchedules\<close>: one fetch per dataset; a failed fetch
  skips the dataset.\<close>

fun refreshSchedulesLoop :: "env \<Rightarrow> string \<Rightarrow> Dataset list \<Rightarrow> RefreshSchedule list \<Rightarrow> trace \<Rightarrow> RefreshSchedule list \<times> trace" where
  "refreshSchedulesLoop e workspaceID [] schedules tr = (schedules, tr)"
| "refreshSchedulesLoop e workspaceID (dataset # datasets) schedules tr =
     (case GetRefreshSchedule e workspaceID (Dataset_ID dataset) tr of
        (Inl err, tr1) \<Rightarrow> refreshSchedulesLoop e workspaceID datasets schedules tr1
      | (Inr schedule, tr1) \<Rightarrow>
          refreshSchedulesLoop e workspaceID datasets
            (schedules @ [\<lparr>DatasetID = Dataset_ID dataset,
                           DatasetName = Dataset_Name dataset,
                           Schedule = schedule\<rparr>]) tr1)"

definition backupRefreshSchedules :: "env \<Rightarrow> string \<Rightarrow> Dataset list \<Rightarrow> trace \<Rightarrow> (error + RefreshSchedule list) \<times> trace" where
  "backupRefreshSchedules e workspaceID datasets tr =
     (case refreshSchedulesLoop e workspaceID datasets [] tr of
        (schedules, tr1) \<Rightarrow> (Inr schedules, tr1))"

text \<open>The export loop of \<open>backupReportsPBIX\<close>, with its two counters.\<close>

fun exportLoop :: "env \<Rightarrow> string \<Rightarrow> string \<Rightarrow> Report list \<Rightarrow> nat \<Rightarrow> nat \<Rightarrow> trace \<Rightarrow> (nat \<times> nat) \<times> trace" where
  "exportLoop e workspaceID pbixDir [] succeeded failed tr = ((succeeded, failed), tr)"
| "exportLoop e workspaceID pbixDir (report # reports) succeeded failed tr =
     (let pbixFile = filepath_Join [pbixDir, sprintf_pbix (Report_Name report)]
      in case ExportReport e workspaceID (Report_ID report) pbixFile tr of
           ((success, err), tr1) \<Rightarrow>
             if err \<noteq> None \<or> \<not> success
             then exportLoop e workspaceID pbixDir reports succeeded (failed + 1) tr1
             else exportLoop e workspaceID pbixDir reports (succeeded + 1) failed tr1)"

text \<open>\<open>backupReportsPBIX\<close>; the returned map \<open>{"succeeded", "failed"}\<close> is the pair of
  the two counters.\<close>

definition backupReportsPBIX :: "env \<Rightarrow> string \<Rightarrow> Report list \<Rightarrow> string \<Rightarrow> trace \<Rightarrow> (error + nat \<times> nat) \<times> trace" where
  "backupReportsPBIX e workspaceID reports backupDir tr =
     (if length reports = 0 then (Inr (0, 0), tr)
      else let pbixDir = filepath_Join [backupDir, ''pbix'']
           in case os_MkdirAll e pbixDir tr of
                (Some err, tr1) \<Rightarrow> (Inl err, tr1)
              | (None, tr1) \<Rightarrow>
                  (case exportLoop e workspaceID pbixDir reports 0 0 tr1 of
                     (status, tr2) \<Rightarrow> (Inr status, tr2)))"

text \<open>
  \<open>BackupWorkspace\<close>. \<open>backupTime\<close> is the value of \<open>time.Now()\<close> taken at the start of
  the run. The local variables \<open>reports\<close> and \<open>datasets\<close> are nil (the empty list) when
  their fetch failed.
\<close>

definition BackupWorkspace :: "env \<Rightarrow> StorageService \<Rightarrow> time \<Rightarrow> string \<Rightarrow> trace \<Rightarrow> (error + CompleteBackup) \<times> trace" where
  "BackupWorkspace e s backupTime workspaceID tr =
     (let timestamp = Format backupTime;
          backupDir = filepath_Join [GetBackupPath s, workspaceID, timestamp]
      in case os_MkdirAll e backupDir tr of
           (Some err, tr1) \<Rightarrow> (Inl err, tr1)
         | (None, tr1) \<Rightarrow>
        (case GetWorkspaceSettings e workspaceID tr1 of
           (Inl err, tr2) \<Rightarrow> (Inl err, tr2)
         | (Inr workspaceData, tr2) \<Rightarrow>
        (let workspaceName = getString workspaceData ''name'';
             backup0 = \<lparr>Timestamp = backupTime,
                        WorkspaceID = workspaceID,
                        WorkspaceName = workspaceName,
                        Reports = [], Datasets = [], Dataflows = [], Dashboards = [],
                        Apps = [], RefreshSchedules = [],
                        WorkspaceSettings =
                          \<lparr>WorkspaceSettings_ID = workspaceID,
                           WorkspaceSettings_Name = workspaceName,
                           WorkspaceSettings_Type = [],
                           WorkspaceSettings_State = [],
                           WorkspaceSettings_IsReadOnly = False,
                           WorkspaceSettings_Settings = []\<rparr>\<rparr>
         in case backupReports e workspaceID tr2 of (reportsResult, tr3) \<Rightarrow>
        (let reports = (case reportsResult of Inl err \<Rightarrow> [] | Inr rs \<Rightarrow> rs);
             backup1 = (case reportsResult of Inl err \<Rightarrow> backup0 | Inr rs \<Rightarrow> backup0\<lparr>Reports := rs\<rparr>)
         in case backupDatasets e workspaceID tr3 of (datasetsResult, tr4) \<Rightarrow>
        (let datasets = (case datasetsResult of Inl err \<Rightarrow> [] | Inr ds \<Rightarrow> ds);
             backup2 = (case datasetsResult of Inl err \<Rightarrow> backup1 | Inr ds \<Rightarrow> backup1\<lparr>Datasets := ds\<rparr>)
         in case backupDataflows e workspaceID tr4 of (dataflowsResult, tr5) \<Rightarrow>
        (let backup3 = (case dataflowsResult of Inl err \<Rightarrow> backup2 | Inr dfs \<Rightarrow> backup2\<lparr>Dataflows := dfs\<rparr>)
         in case backupDashboards e workspaceID tr5 of (dashboardsResult, tr6) \<Rightarrow>
        (let backup4 = (case dashboardsResult of Inl err \<Rightarrow> backup3 | Inr dbs \<Rightarrow> backup3\<lparr>Dashboards := dbs\<rparr>)
         in case backupApps e workspaceID tr6 of (appsResult, tr7) \<Rightarrow>
        (let backup5 = (case appsResult of Inl err \<Rightarrow> backup4 | Inr apps \<Rightarrow> backup4\<lparr>Apps := apps\<rparr>)
         in case backupRefreshSchedules e workspaceID datasets tr7 of (schedulesResult, tr8) \<Rightarrow>
        (let backup6 = (case schedulesResult of Inl err \<Rightarrow> backup5
                        | Inr schedules \<Rightarrow> backup5\<lparr>RefreshSchedules := schedules\<rparr>)
         in case backupReportsPBIX e workspaceID reports backupDir tr8 of (pbixStatus, tr9) \<Rightarrow>
        (case SaveBackup e s backup6 tr9 of
           (Inl err, tr10) \<Rightarrow> (Inl err, tr10)
         | (Inr savedPath, tr10) \<Rightarrow> (Inr backup6, tr10)))))))))))"



section \<open>Restore orchestrator (internal/restore/service.go)\<close>

subsection \<open>Name reconciliation\<close>

text \<open>
  \<open>existingDatasets\<close> is a \<open>map[string]bool\<close>; reading a missing key gives \<open>false\<close>.
\<close>

definition lookup_bool :: "(string, bool) fmap \<Rightarrow> string \<Rightarrow> bool" where
  "lookup_bool m k = (case fmlookup m k of Some b \<Rightarrow> b | None \<Rightarrow> False)"

text \<open>
  The probing loop
  \<^verbatim>\<open>for existingDatasets[fmt.Sprintf("%s_%d", datasetName, counter)] { counter++ }\<close>
  returns the final value of \<open>counter\<close>. It ends because the map is finite and the
  probed names are pairwise different, which needs that \<open>%d\<close> is injective.
\<close>

definition digit_val :: "char \<Rightarrow> nat" where
  "digit_val c = of_char c - 48"

lemma digit_val_digits: "d < 10 \<Longrightarrow> digit_val (digits ! d) = d"
proof -
  assume "d < 10"
  then have "d = 0 \<or> d = 1 \<or> d = 2 \<or> d = 3 \<or> d = 4 \<or> d = 5 \<or> d = 6 \<or> d = 7 \<or> d = 8 \<or> d = 9"
    by arith
  then show ?thesis
    by (auto simp: digits_def digit_val_def)
qed

lemma foldl_itoa: "foldl (\<lambda>a c. 10 * a + digit_val c) 0 (itoa n) = n"
proof (induction n rule: itoa.induct)
  case (1 n)
  show ?case
  proof (cases "n < 10")
    case True
    then show ?thesis by (simp add: itoa.simps [of n] digit_val_digits)
  next
    case False
    then show ?thesis using 1 by (simp add: itoa.simps [of n] digit_val_digits)
  qed
qed

lemma itoa_inj: "itoa n = itoa m \<Longrightarrow> n = m"
proof -
  assume "itoa n = itoa m"
  then have "foldl (\<lambda>a c. 10 * a + digit_val c) 0 (itoa n)
      = foldl (\<lambda>a c. 10 * a + digit_val c) 0 (itoa m)"
    by simp
  then show ?thesis by (simp only: foldl_itoa)
qed

lemma sprintf_s_d_inj: "sprintf_s_d name c = sprintf_s_d name c' \<Longrightarrow> c = c'"
  by (simp add: sprintf_s_d_def itoa_inj)

function probeCounter :: "(string, bool) fmap \<Rightarrow> string \<Rightarrow> nat \<Rightarrow> nat" where
  "probeCounter existingDatasets datasetName counter =
     (if lookup_bool existingDatasets (sprintf_s_d datasetName counter)
      then probeCounter existingDatasets datasetName (counter + 1)
      else counter)"
  by pat_completeness auto
termination
proof (relation "measure (\<lambda>(m, name, c). card {k \<in> fmdom' m. \<exists>c'\<ge>c. k = sprintf_s_d name c'})")
  show "wf (measure (\<lambda>(m, name, c). card {k \<in> fmdom' m. \<exists>c'\<ge>c. k = sprintf_s_d name c'}))"
    by simp
next
  fix existingDatasets :: "(string, bool) fmap" and datasetName counter
  assume taken: "lookup_bool existingDatasets (sprintf_s_d datasetName counter)"
  let ?S = "\<lambda>c. {k \<in> fmdom' existingDatasets. \<exists>c'\<ge>c. k = sprintf_s_d datasetName c'}"
  have mem: "sprintf_s_d datasetName counter \<in> ?S counter"
    using taken by (auto simp: lookup_bool_def fmdom'I split: option.splits)
  have notmem: "sprintf_s_d datasetName counter \<notin> ?S (counter + 1)"
    by (auto dest: sprintf_s_d_inj)
  have sub: "?S (counter + 1) \<subseteq> ?S counter"
    by (auto intro: Suc_leD)
  have fin: "finite (?S counter)"
    by simp
  have "?S (counter + 1) \<subset> ?S counter"
    using mem notmem sub by blast
  then have "card (?S (counter + 1)) < card (?S counter)"
    by (rule psubset_card_mono [OF fin])
  then show "((existingDatasets, datasetName, counter + 1), (existingDatasets, datasetName, counter))
      \<in> measure (\<lambda>(m, name, c). card {k \<in> fmdom' m. \<exists>c'\<ge>c. k = sprintf_s_d name c'})"
    by simp
qed

declare probeCounter.simps [simp del]

text \<open>
  The Name Reconciler, the block under \<open>// Check for duplicates\<close> in the import loop:
  the value of \<open>finalName\<close> for a \<open>datasetName\<close> and the current map.
\<close>

definition reconcileName :: "(string, bool) fmap \<Rightarrow> string \<Rightarrow> string" where
  "reconcileName existingDatasets datasetName =
     (if lookup_bool existingDatasets datasetName
      then sprintf_s_d datasetName (probeCounter existingDatasets datasetName 1)
      else datasetName)"

subsection \<open>Import of the artifacts\<close>

text \<open>Seeding the map from the datasets of the target workspace.\<close>

fun seedExisting :: "json list \<Rightarrow> (string, bool) fmap \<Rightarrow> (string, bool) fmap" where
  "seedExisting [] existingDatasets = existingDatasets"
| "seedExisting (item # val) existingDatasets =
     (case assert_object (Some item) of
        None \<Rightarrow> seedExisting val existingDatasets
      | Some ds \<Rightarrow>
          (case assert_string (map_of ds ''name'') of
             None \<Rightarrow> seedExisting val existingDatasets
           | Some name \<Rightarrow> seedExisting val (fmupd name True existingDatasets)))"

text \<open>The candidate dataset name of an artifact file: its base name without the last
  five bytes (the extension \<open>.pbix\<close>).\<close>

definition candidateName :: "string \<Rightarrow> string" where
  "candidateName pbixFile =
     (let fileName = filepath_Base pbixFile in take (length fileName - 5) fileName)"

definition existingOf :: "error + json_object \<Rightarrow> (string, bool) fmap" where
  "existingOf datasetsResp =
     (case datasetsResp of
        Inl err \<Rightarrow> fmempty
      | Inr resp \<Rightarrow>
          (case assert_array (map_of resp ''value'') of
             None \<Rightarrow> fmempty
           | Some val \<Rightarrow> seedExisting val fmempty))"

text \<open>
  The import loop with its state: the map and the counters \<open>imported\<close> and \<open>failed\<close>.
  \<open>fileName[:len(fileName)-5]\<close> panics when the name has fewer than five bytes. The
  name is entered into the map only after its import has succeeded.
\<close>

fun importLoop :: "env \<Rightarrow> string \<Rightarrow> string list \<Rightarrow> (string, bool) fmap \<Rightarrow> nat \<Rightarrow> nat \<Rightarrow> trace
    \<Rightarrow> (error option \<times> (string, bool) fmap \<times> nat \<times> nat) \<times> trace" where
  "importLoop e workspaceID [] existingDatasets imported failed tr =
     ((None, existingDatasets, imported, failed), tr)"
| "importLoop e workspaceID (pbixFile # files) existingDatasets imported failed tr =
     (let fileName = filepath_Base pbixFile
      in if length fileName < 5
         then ((Some (Panic ''slice bounds out of range''), existingDatasets, imported, failed), tr)
         else
           (let datasetName = take (length fileName - 5) fileName;
                finalName = reconcileName existingDatasets datasetName
            in case ImportPBIX e workspaceID pbixFile finalName tr of
                 ((success, err), tr1) \<Rightarrow>
                   if err \<noteq> None \<or> \<not> success
                   then importLoop e workspaceID files existingDatasets imported (failed + 1) tr1
                   else importLoop e workspaceID files (fmupd finalName True existingDatasets)
                          (imported + 1) failed tr1))"

text \<open>
  \<open>restoreReportsPBIX\<close>. Besides the returned error the model returns what the source
  holds in \<open>existingDatasets\<close>, \<open>imported\<close> and \<open>failed\<close> when it returns (the counters
  are what its last log line prints).
\<close>

definition restoreReportsPBIX :: "env \<Rightarrow> string \<Rightarrow> string \<Rightarrow> trace
    \<Rightarrow> (error option \<times> (string, bool) fmap \<times> nat \<times> nat) \<times> trace" where
  "restoreReportsPBIX e workspaceID backupPath tr =
     (let pbixDir = filepath_Join [backupPath, ''pbix'']
      in case os_Stat e pbixDir tr of
           (statErr, tr1) \<Rightarrow>
             if os_IsNotExist statErr then ((None, fmempty, 0, 0), tr1)
             else
               (case filepath_Glob e (filepath_Join [pbixDir, ''*.pbix'']) tr1 of
                  (Inl err, tr2) \<Rightarrow> ((Some err, fmempty, 0, 0), tr2)
                | (Inr files, tr2) \<Rightarrow>
                    if length files = 0 then ((None, fmempty, 0, 0), tr2)
                    else
                      (case GetDatasets e workspaceID tr2 of
                         (datasetsResp, tr3) \<Rightarrow>
                           (let existingDatasets = existingOf datasetsResp
                            in importLoop e workspaceID files existingDatasets 0 0 tr3))))"

subsection \<open>Refresh schedules\<close>

text \<open>The name-to-id index over the current datasets of the target workspace.\<close>

fun indexDatasets :: "json list \<Rightarrow> (string, string) fmap \<Rightarrow> (string, string) fmap" where
  "indexDatasets [] datasetNameToID = datasetNameToID"
| "indexDatasets (item # val) datasetNameToID =
     (case assert_object (Some item) of
        None \<Rightarrow> indexDatasets val datasetNameToID
      | Some ds \<Rightarrow>
          (let name = getString ds ''name'';
               id = getString ds ''id''
           in if name \<noteq> [] \<and> id \<noteq> []
              then indexDatasets val (fmupd name id datasetNameToID)
              else indexDatasets val datasetNameToID))"

definition indexOf :: "json_object \<Rightarrow> (string, string) fmap" where
  "indexOf datasetsResp =
     (case assert_array (map_of datasetsResp ''value'') of
        None \<Rightarrow> fmempty
      | Some val \<Rightarrow> indexDatasets val fmempty)"

text \<open>
  The same listing read as a list: the (name, id) pairs of its datasets that have a
  name and an id, in the order of the listing, and the id of the last listed dataset
  of a name.
\<close>

definition datasetPair :: "json \<Rightarrow> (string \<times> string) list" where
  "datasetPair item =
     (case assert_object (Some item) of
        None \<Rightarrow> []
      | Some ds \<Rightarrow>
          if getString ds ''name'' \<noteq> [] \<and> getString ds ''id'' \<noteq> []
          then [(getString ds ''name'', getString ds ''id'')] else [])"

definition listedDatasets :: "json_object \<Rightarrow> (string \<times> string) list" where
  "listedDatasets datasetsResp =
     (case assert_array (map_of datasetsResp ''value'') of
        None \<Rightarrow> []
      | Some val \<Rightarrow> concat (map datasetPair val))"

definition lastListedID :: "json_object \<Rightarrow> string \<Rightarrow> string option" where
  "lastListedID datasetsResp name = map_of (rev (listedDatasets datasetsResp)) name"

text \<open>The loop over the schedules of the snapshot, with the counters \<open>restored\<close> and
  \<open>failed\<close>.\<close>

fun schedulesLoop :: "env \<Rightarrow> string \<Rightarrow> (string, string) fmap \<Rightarrow> RefreshSchedule list \<Rightarrow> nat \<Rightarrow> nat \<Rightarrow> trace
    \<Rightarrow> (nat \<times> nat) \<times> trace" where
  "schedulesLoop e workspaceID datasetNameToID [] restored failed tr = ((restored, failed), tr)"
| "schedulesLoop e workspaceID datasetNameToID (schedule # schedules) restored failed tr =
     (case fmlookup datasetNameToID (DatasetName schedule) of
        None \<Rightarrow> schedulesLoop e workspaceID datasetNameToID schedules restored (failed + 1) tr
      | Some newDatasetID \<Rightarrow>
          (case UpdateRefreshSchedule e workspaceID newDatasetID (Schedule schedule) tr of
             (Some err, tr1) \<Rightarrow>
               schedulesLoop e workspaceID datasetNameToID schedules restored (failed + 1) tr1
           | (None, tr1) \<Rightarrow>
               schedulesLoop e workspaceID datasetNameToID schedules (restored + 1) failed tr1))"

text \<open>
  \<open>restoreRefreshSchedules\<close>. Besides the returned error the model returns the counters
  \<open>restored\<close> and \<open>failed\<close> that its last log line prints.
\<close>

definition restoreRefreshSchedules :: "env \<Rightarrow> string \<Rightarrow> RefreshSchedule list \<Rightarrow> trace
    \<Rightarrow> (error option \<times> nat \<times> nat) \<times> trace" where
  "restoreRefreshSchedules e workspaceID schedules tr =
     (if length schedules = 0 then ((None, 0, 0), tr)
      else
        (case GetDatasets e workspaceID tr of
           (Inl err, tr1) \<Rightarrow> ((Some err, 0, 0), tr1)
         | (Inr datasetsResp, tr1) \<Rightarrow>
             (let datasetNameToID = indexOf datasetsResp
              in case schedulesLoop e workspaceID datasetNameToID schedules 0 0 tr1 of
                   ((restored, failed), tr2) \<Rightarrow> ((None, restored, failed), tr2))))"

subsection \<open>The restore run\<close>

definition RestoreWorkspace :: "env \<Rightarrow> string \<Rightarrow> string \<Rightarrow> trace \<Rightarrow> error option \<times> trace" where
  "RestoreWorkspace e targetWorkspaceID backupPath tr =
     (case LoadBackup e backupPath tr of
        (Inl err, tr1) \<Rightarrow> (Some err, tr1)
      | (Inr backup, tr1) \<Rightarrow>
          (case restoreReportsPBIX e targetWorkspaceID backupPath tr1 of
             ((Some err, state), tr2) \<Rightarrow> (Some err, tr2)
           | ((None, state), tr2) \<Rightarrow>
               (case restoreRefreshSchedules e targetWorkspaceID (RefreshSchedules backup) tr2 of
                  (schedulesResult, tr3) \<Rightarrow> (None, tr3))))"

section \<open>Environments for concrete runs\<close>

text \<open>An environment in which every call succeeds and every listing is empty.\<close>

definition all_succeed_env :: env where
  "all_succeed_env =
     \<lparr>MkdirAll_result = (\<lambda>tr path. None),
      Stat_result = (\<lambda>tr path. None),
      Glob_result = (\<lambda>tr pattern. Inr []),
      ReadDir_result = (\<lambda>tr path. Inr []),
      ReadFile_result = (\<lambda>tr path. Inr []),
      WriteFile_result = (\<lambda>tr path data. None),
      MarshalIndent_result = (\<lambda>v. Inr []),
      Unmarshal_result = (\<lambda>data. Inl (Error ''unexpected end of JSON input'')),
      GetWorkspaceSettings_result = (\<lambda>tr workspaceID. Inr []),
      GetReports_result = (\<lambda>tr workspaceID. Inr []),
      GetDatasets_result = (\<lambda>tr workspaceID. Inr []),
      GetDataflows_result = (\<lambda>tr workspaceID. Inr []),
      GetDashboards_result = (\<lambda>tr workspaceID. Inr []),
      GetApps_result = (\<lambda>tr. Inr []),
      GetRefreshSchedule_result = (\<lambda>tr workspaceID datasetID. Inr []),
      UpdateRefreshSchedule_result = (\<lambda>tr workspaceID datasetID schedule. None),
      ExportReport_result = (\<lambda>tr workspaceID reportID outputPath. (True, None)),
      ImportPBIX_result = (\<lambda>tr workspaceID pbixPath datasetName. (True, None))\<rparr>"

text \<open>A snapshot with two refresh schedules, and a target workspace that holds one
  dataset named \<open>Sales\<close>.\<close>

definition sales_schedule :: json_object where
  "sales_schedule = [(''enabled'', JBool True), (''times'', JArray [JString ''07:00''])]"

definition snapshot1 :: CompleteBackup where
  "snapshot1 =
     \<lparr>Timestamp = \<lparr>year = 2024, month = 5, day = 17, hour = 9, minute = 30, second = 0\<rparr>,
      WorkspaceID = ''src'',
      WorkspaceName = ''Source'',
      Reports = [], Datasets = [], Dataflows = [], Dashboards = [], Apps = [],
      RefreshSchedules =
        [\<lparr>DatasetID = ''old-1'', DatasetName = ''Sales'', Schedule = sales_schedule\<rparr>,
         \<lparr>DatasetID = ''old-2'', DatasetName = ''Budget'', Schedule = []\<rparr>],
      WorkspaceSettings =
        \<lparr>WorkspaceSettings_ID = ''src'', WorkspaceSettings_Name = ''Source'',
         WorkspaceSettings_Type = [], WorkspaceSettings_State = [],
         WorkspaceSettings_IsReadOnly = False, WorkspaceSettings_Settings = []\<rparr>\<rparr>"

definition target_has_sales :: json_object where
  "target_has_sales =
     [(''value'', JArray [JObject [(''id'', JString ''new-1''), (''name'', JString ''Sales'')]])]"

definition env_target_sales :: env where
  "env_target_sales = all_succeed_env\<lparr>GetDatasets_result := (\<lambda>tr workspaceID. Inr target_has_sales)\<rparr>"

definition env_no_pbix :: env where
  "env_no_pbix = all_succeed_env
     \<lparr>Stat_result := (\<lambda>tr path. Some ErrNotExist),
      ReadFile_result := (\<lambda>tr path. Inr ''{}''),
      Unmarshal_result := (\<lambda>data. Inr snapshot1),
      GetDatasets_result := (\<lambda>tr workspaceID. Inl (Error ''API error 500''))\<rparr>"


definition env_load_fails :: env where
  "env_load_fails = all_succeed_env\<lparr>ReadFile_result := (\<lambda>tr path. Inl ErrNotExist)\<rparr>"

definition env_first_import_fails :: env where
  "env_first_import_fails = all_succeed_env
     \<lparr>Glob_result := (\<lambda>tr pattern. Inr [''b/pbix/Sales.pbix'', ''b/pbix/Sales_1.pbix'']),
      GetDatasets_result := (\<lambda>tr workspaceID. Inr target_has_sales),
      ImportPBIX_result := (\<lambda>tr workspaceID pbixPath datasetName.
         if pbixPath = ''b/pbix/Sales.pbix'' then (False, Some (Error ''import failed: 400'')) else (True, None))\<rparr>"

text \<open>
  A snapshot directory named \<open>b/?\<close>: its pattern \<open>b/?/pbix/*.pbix\<close> lists the artifacts
  of the directories \<open>b/x\<close>, \<open>b/y\<close> and \<open>b/z\<close>, three files named \<open>Sales.pbix\<close>. The
  target workspace holds no dataset, and the import of the first file fails.
\<close>

definition env_three_sales :: env where
  "env_three_sales = all_succeed_env
     \<lparr>Glob_result := (\<lambda>tr pattern.
         if pattern = ''b/?/pbix/*.pbix''
         then Inr [''b/x/pbix/Sales.pbix'', ''b/y/pbix/Sales.pbix'', ''b/z/pbix/Sales.pbix'']
         else Inr []),
      ImportPBIX_result := (\<lambda>tr workspaceID pbixPath datasetName.
         if pbixPath = ''b/x/pbix/Sales.pbix'' then (False, Some (Error ''import failed: 400''))
         else (True, None))\<rparr>"


text \<open>A store, a start time, and two environments for backup runs: one in which the
  reports and the apps cannot be fetched, one in which the workspace settings cannot.\<close>

definition store1 :: StorageService where
  "store1 = \<lparr>StorageService_backupPath = ''backups''\<rparr>"

definition time1 :: time where
  "time1 = \<lparr>year = 2024, month = 5, day = 17, hour = 9, minute = 30, second = 0\<rparr>"

definition env_degraded :: env where
  "env_degraded = all_succeed_env
     \<lparr>GetWorkspaceSettings_result := (\<lambda>tr workspaceID. Inr [(''name'', JString ''Finance'')]),
      GetReports_result := (\<lambda>tr workspaceID. Inl (Error ''API error 500'')),
      GetApps_result := (\<lambda>tr. Inl (Error ''API error 403''))\<rparr>"

definition env_settings_down :: env where
  "env_settings_down = all_succeed_env
     \<lparr>GetWorkspaceSettings_result := (\<lambda>tr workspaceID. Inl (Error ''API error 401''))\<rparr>"

definition snapshot_degraded :: CompleteBackup where
  "snapshot_degraded =
     \<lparr>Timestamp = time1, WorkspaceID = ''ws'', WorkspaceName = ''Finance'',
      Reports = [], Datasets = [], Dataflows = [], Dashboards = [], Apps = [],
      RefreshSchedules = [],
      WorkspaceSettings =
        \<lparr>WorkspaceSettings_ID = ''ws'', WorkspaceSettings_Name = ''Finance'',
         WorkspaceSettings_Type = [], WorkspaceSettings_State = [],
         WorkspaceSettings_IsReadOnly = False, WorkspaceSettings_Settings = []\<rparr>\<rparr>"

definition trace_degraded :: trace where
  "trace_degraded =
     [(Call_MkdirAll ''backups/ws/2024-05-17_09-30-00'', True),
      (Call_GetWorkspaceSettings ''ws'', True),
      (Call_GetReports ''ws'', False),
      (Call_GetDatasets ''ws'', True),
      (Call_GetDataflows ''ws'', True),
      (Call_GetDashboards ''ws'', True),
      (Call_GetApps, False),
      (Call_MkdirAll ''backups/ws/2024-05-17_09-30-00'', True),
      (Call_WriteFile ''backups/ws/2024-05-17_09-30-00/complete_backup.json'' [], True),
      (Call_WriteFile ''backups/ws/2024-05-17_09-30-00/reports.json'' [], True),
      (Call_WriteFile ''backups/ws/2024-05-17_09-30-00/datasets.json'' [], True),
      (Call_WriteFile ''backups/ws/2024-05-17_09-30-00/dataflows.json'' [], True),
      (Call_WriteFile ''backups/ws/2024-05-17_09-30-00/dashboards.json'' [], True),
      (Call_WriteFile ''backups/ws/2024-05-17_09-30-00/apps.json'' [], True),
      (Call_WriteFile ''backups/ws/2024-05-17_09-30-00/refresh_schedules.json'' [], True),
      (Call_WriteFile ''backups/ws/2024-05-17_09-30-00/workspace_settings.json'' [], True)]"


subsection \<open>A file system read off the trace\<close>

text \<open>
  The directories and files that the calls of a trace have created: \<open>os.MkdirAll\<close>
  creates the path and its parents, \<open>os.WriteFile\<close> and a successful export create (or
  truncate) one file. Two writes to one path leave one file.
\<close>

definition parent_dir :: "string \<Rightarrow> string" where
  "parent_dir path = rev (drop 1 (dropWhile (\<lambda>c. c \<noteq> CHR ''/'') (rev path)))"

definition path_prefixes :: "string \<Rightarrow> string list" where
  "path_prefixes path =
     filter (\<lambda>p. p \<noteq> [])
       (map (\<lambda>i. take i path) (filter (\<lambda>i. path ! i = CHR ''/'') [0..<length path]))
     @ [path]"

fun dirs_of :: "trace \<Rightarrow> string list" where
  "dirs_of [] = []"
| "dirs_of ((Call_MkdirAll path, True) # tr) = path_prefixes path @ dirs_of tr"
| "dirs_of (ev # tr) = dirs_of tr"

fun files_of :: "trace \<Rightarrow> (string \<times> string) list" where
  "files_of [] = []"
| "files_of ((Call_WriteFile path data, True) # tr) = (path, data) # files_of tr"
| "files_of ((Call_ExportReport workspaceID reportID path, True) # tr) = (path, ''PBIX'') # files_of tr"
| "files_of (ev # tr) = files_of tr"

text \<open>The entries of a directory, sorted by name as \<open>os.ReadDir\<close> returns them.\<close>

definition entries_of :: "trace \<Rightarrow> string \<Rightarrow> DirEntry list" where
  "entries_of tr dir =
     sort_key fst
       (map (\<lambda>p. (filepath_Base p, True)) (filter (\<lambda>p. parent_dir p = dir) (remdups (dirs_of tr)))
        @ map (\<lambda>p. (filepath_Base p, False))
            (filter (\<lambda>p. parent_dir p = dir) (remdups (map fst (files_of tr)))))"

definition has_pbix_extension :: "string \<Rightarrow> bool" where
  "has_pbix_extension name = (5 \<le> length name \<and> drop (length name - 5) name = ''.pbix'')"

text \<open>
  An environment over that file system: \<open>os.Stat\<close>, \<open>os.ReadDir\<close>, \<open>filepath.Glob\<close> and
  \<open>os.ReadFile\<close> answer from what the earlier calls of the trace have created; creating
  directories, writing files, exporting and importing succeed; no dataset has a refresh
  schedule. The parameters are the answers of the workspace-settings fetch and of the
  report listing, and the snapshot that decoding \<open>complete_backup.json\<close> gives.
\<close>

definition sim_env :: "(error + json_object) \<Rightarrow> json_object \<Rightarrow> CompleteBackup \<Rightarrow> env" where
  "sim_env settings reports stored =
     \<lparr>MkdirAll_result = (\<lambda>tr path. None),
      Stat_result = (\<lambda>tr path.
         if path \<in> set (dirs_of tr) \<or> path \<in> set (map fst (files_of tr)) then None
         else Some ErrNotExist),
      Glob_result = (\<lambda>tr pattern.
         Inr (map (\<lambda>entry. parent_dir pattern @ ''/'' @ fst entry)
                (filter (\<lambda>entry. has_pbix_extension (fst entry))
                   (entries_of tr (parent_dir pattern))))),
      ReadDir_result = (\<lambda>tr path.
         if path \<in> set (dirs_of tr) then Inr (entries_of tr path) else Inl ErrNotExist),
      ReadFile_result = (\<lambda>tr path.
         case map_of (rev (files_of tr)) path of Some data \<Rightarrow> Inr data | None \<Rightarrow> Inl ErrNotExist),
      WriteFile_result = (\<lambda>tr path data. None),
      MarshalIndent_result = (\<lambda>v. Inr ''{}''),
      Unmarshal_result = (\<lambda>data. Inr stored),
      GetWorkspaceSettings_result = (\<lambda>tr workspaceID. settings),
      GetReports_result = (\<lambda>tr workspaceID. Inr reports),
      GetDatasets_result = (\<lambda>tr workspaceID. Inr []),
      GetDataflows_result = (\<lambda>tr workspaceID. Inr []),
      GetDashboards_result = (\<lambda>tr workspaceID. Inr []),
      GetApps_result = (\<lambda>tr. Inr []),
      GetRefreshSchedule_result = (\<lambda>tr workspaceID datasetID. Inl (Error ''API error 404'')),
      UpdateRefreshSchedule_result = (\<lambda>tr workspaceID datasetID schedule. None),
      ExportReport_result = (\<lambda>tr workspaceID reportID outputPath. (True, None)),
      ImportPBIX_result = (\<lambda>tr workspaceID pbixPath datasetName. (True, None))\<rparr>"

text \<open>A workspace whose settings cannot be fetched.\<close>

definition env_sim_settings_down :: env where
  "env_sim_settings_down = sim_env (Inl (Error ''API error 401'')) [] snapshot1"


definition report_sales :: "string \<Rightarrow> Report" where
  "report_sales rid =
     \<lparr>Report_ID = rid, Report_Name = ''Sales'', Report_DatasetID = [], Report_EmbedURL = [],
      Report_WebURL = [], Report_Pages = []\<rparr>"




text \<open>A report whose display name holds a path separator.\<close>

definition report_parent_dir :: Report where
  "report_parent_dir =
     \<lparr>Report_ID = ''r9'', Report_Name = ''../Q1'', Report_DatasetID = [], Report_EmbedURL = [],
      Report_WebURL = [], Report_Pages = []\<rparr>"

subsection \<open>The artifact path in the words of the specification\<close>

text \<open>
  The specification places the artifact of a report at
  \<open><run-dir>/pbix/<sanitized-name>.pbix\<close>, the file name component being file-system-safe.
  Whatever the sanitization, a file-system-safe name is not empty and holds neither a
  path separator nor a NUL byte; a path of the specified form is such a name between
  \<open><run-dir>/pbix/\<close> and \<open>.pbix\<close>.
\<close>

definition spec_file_system_safe :: "string \<Rightarrow> bool" where
  "spec_file_system_safe name = (name \<noteq> [] \<and> CHR ''/'' \<notin> set name \<and> CHR 0x00 \<notin> set name)"

definition spec_sanitized_artifact_path :: "string \<Rightarrow> string \<Rightarrow> bool" where
  "spec_sanitized_artifact_path dir path =
     (\<exists>name. spec_file_system_safe name \<and> path = dir @ ''/pbix/'' @ name @ ''.pbix'')"


section \<open>The Name Reconciler\<close>

lemma probeCounter_ge: "counter \<le> probeCounter m d counter"
proof (induction m d counter rule: probeCounter.induct)
  case (1 m d c)
  show ?case
  proof (cases "lookup_bool m (sprintf_s_d d c)")
    case True
    with 1 have "c + 1 \<le> probeCounter m d (c + 1)" by simp
    then show ?thesis using True by (simp add: probeCounter.simps [of m d c])
  next
    case False
    then show ?thesis by (simp add: probeCounter.simps [of m d c])
  qed
qed

lemma probeCounter_free: "\<not> lookup_bool m (sprintf_s_d d (probeCounter m d counter))"
proof (induction m d counter rule: probeCounter.induct)
  case (1 m d c)
  show ?case
  proof (cases "lookup_bool m (sprintf_s_d d c)")
    case True
    with 1 show ?thesis by (simp add: probeCounter.simps [of m d c])
  next
    case False
    then show ?thesis by (simp add: probeCounter.simps [of m d c])
  qed
qed

lemma probeCounter_taken_below:
  "counter \<le> k \<Longrightarrow> k < probeCounter m d counter \<Longrightarrow> lookup_bool m (sprintf_s_d d k)"
proof (induction m d counter rule: probeCounter.induct)
  case (1 m d c)
  show ?case
  proof (cases "lookup_bool m (sprintf_s_d d c)")
    case True
    show ?thesis
    proof (cases "k = c")
      case True
      then show ?thesis using \<open>lookup_bool m (sprintf_s_d d c)\<close> by simp
    next
      case False
      with "1.prems" have "c + 1 \<le> k" by simp
      moreover have "k < probeCounter m d (c + 1)"
        using "1.prems" True by (simp add: probeCounter.simps [of m d c])
      ultimately show ?thesis using "1.IH" True by blast
    qed
  next
    case False
    with "1.prems" show ?thesis by (simp add: probeCounter.simps [of m d c])
  qed
qed

text \<open>
  The names that the reconciler gives to \<open>Sales\<close> as the map fills, and one turn of
  the import loop.
\<close>

lemma reconcile_sales:
  "reconcileName fmempty ''Sales'' = ''Sales''"
  "reconcileName (fmupd ''Sales'' True fmempty) ''Sales'' = ''Sales_1''"
  "reconcileName (fmupd ''Sales_1'' True (fmupd ''Sales'' True fmempty)) ''Sales'' = ''Sales_2''"
  by (simp_all add: reconcileName_def lookup_bool_def probeCounter.simps sprintf_s_d_def
      itoa.simps digits_def)

lemma importLoop_step:
  "5 \<le> length (filepath_Base f) \<Longrightarrow>
   importLoop e w (f # fs) ex imported failed tr =
     (let finalName = reconcileName ex (candidateName f);
          ok = returned_success (ImportPBIX_result e tr w f finalName)
      in importLoop e w fs (if ok then fmupd finalName True ex else ex)
           (if ok then imported + 1 else imported) (if ok then failed else failed + 1)
           (tr @ [(Call_ImportPBIX w f finalName, ok)]))"
  by (auto simp: ImportPBIX_def Let_def returned_success_def candidateName_def split: prod.splits)

lemma importLoop_three_calls:
  assumes "5 \<le> length (filepath_Base f1)" "5 \<le> length (filepath_Base f2)"
    "5 \<le> length (filepath_Base f3)"
  shows "map fst (snd (importLoop e w [f1, f2, f3] ex 0 0 [])) =
     (let n1 = reconcileName ex (candidateName f1);
          ok1 = returned_success (ImportPBIX_result e [] w f1 n1);
          ex1 = (if ok1 then fmupd n1 True ex else ex);
          n2 = reconcileName ex1 (candidateName f2);
          ok2 = returned_success (ImportPBIX_result e [(Call_ImportPBIX w f1 n1, ok1)] w f2 n2);
          ex2 = (if ok2 then fmupd n2 True ex1 else ex1);
          n3 = reconcileName ex2 (candidateName f3)
      in [Call_ImportPBIX w f1 n1, Call_ImportPBIX w f2 n2, Call_ImportPBIX w f3 n3])"
  by (simp add: importLoop_step [OF assms(1)] importLoop_step [OF assms(2)]
      importLoop_step [OF assms(3)] Let_def del: importLoop.simps(2))


text \<open>
  C2, as stated, fails in its scenario. The listing gives three artifact files named
  \<open>Sales.pbix\<close>, the target workspace holds no dataset, and the import of the first
  file fails. The names given are \<open>Sales\<close>, \<open>Sales\<close>, \<open>Sales_1\<close>: the reconciler does
  not enter the name it returns into the map; the loop does, after the import has
  succeeded.
\<close>

theorem sales_scenario_failed_import:
  "map candidateName [''b/x/pbix/Sales.pbix'', ''b/y/pbix/Sales.pbix'', ''b/z/pbix/Sales.pbix'']
     = [''Sales'', ''Sales'', ''Sales'']
   \<and> existingOf (GetDatasets_result env_three_sales
        [(Call_Stat ''b/?/pbix'', True), (Call_Glob ''b/?/pbix/*.pbix'', True)] ''ws'') = fmempty
   \<and> snd (restoreReportsPBIX env_three_sales ''ws'' ''b/?'' [])
       = [(Call_Stat ''b/?/pbix'', True), (Call_Glob ''b/?/pbix/*.pbix'', True),
          (Call_GetDatasets ''ws'', True),
          (Call_ImportPBIX ''ws'' ''b/x/pbix/Sales.pbix'' ''Sales'', False),
          (Call_ImportPBIX ''ws'' ''b/y/pbix/Sales.pbix'' ''Sales'', True),
          (Call_ImportPBIX ''ws'' ''b/z/pbix/Sales.pbix'' ''Sales_1'', True)]
   \<and> final_names (snd (restoreReportsPBIX env_three_sales ''ws'' ''b/?'' []))
       \<noteq> [''Sales'', ''Sales_1'', ''Sales_2'']"
proof -
  have names: "map candidateName [''b/x/pbix/Sales.pbix'', ''b/y/pbix/Sales.pbix'', ''b/z/pbix/Sales.pbix'']
     = [''Sales'', ''Sales'', ''Sales'']"
    by (simp add: candidateName_def filepath_Base_def)
  have empty: "existingOf (GetDatasets_result env_three_sales
        [(Call_Stat ''b/?/pbix'', True), (Call_Glob ''b/?/pbix/*.pbix'', True)] ''ws'') = fmempty"
    by (simp add: env_three_sales_def all_succeed_env_def existingOf_def)
  have paths: "filepath_Join [''b/?'', ''pbix''] = ''b/?/pbix''"
    "filepath_Join [''b/?/pbix'', ''*.pbix''] = ''b/?/pbix/*.pbix''"
    by (simp_all add: filepath_Join_def filepath_Clean_def Let_def)
  have run: "snd (restoreReportsPBIX env_three_sales ''ws'' ''b/?'' [])
       = [(Call_Stat ''b/?/pbix'', True), (Call_Glob ''b/?/pbix/*.pbix'', True),
          (Call_GetDatasets ''ws'', True),
          (Call_ImportPBIX ''ws'' ''b/x/pbix/Sales.pbix'' ''Sales'', False),
          (Call_ImportPBIX ''ws'' ''b/y/pbix/Sales.pbix'' ''Sales'', True),
          (Call_ImportPBIX ''ws'' ''b/z/pbix/Sales.pbix'' ''Sales_1'', True)]"
    by (simp add: restoreReportsPBIX_def paths os_Stat_def filepath_Glob_def GetDatasets_def
        ImportPBIX_def env_three_sales_def all_succeed_env_def existingOf_def os_IsNotExist_def
        filepath_Base_def Let_def returned_nil_def returned_value_def returned_success_def
        reconcile_sales)
  have "final_names (snd (restoreReportsPBIX env_three_sales ''ws'' ''b/?'' []))
       \<noteq> [''Sales'', ''Sales_1'', ''Sales_2'']"
    unfolding run by (simp add: final_names_def import_attempts_def)
  then show ?thesis using names empty run by simp
qed


text \<open>
  C2, amended. For every desired name and every map of taken names the reconciler
  returns the desired name unchanged when it is not taken, and otherwise \<open>desired_n\<close>
  for the smallest positive \<open>n\<close> whose \<open>desired_n\<close> is not taken. A returned name is
  entered into the map only after its import has succeeded: three artifact files
  named \<open>Sales.pbix\<close> against an empty map are given the names \<open>Sales\<close>, \<open>Sales_1\<close>,
  \<open>Sales_2\<close>, in that order, exactly when the imports of the first two succeed.
\<close>

theorem reconcileName_spec:
  "(\<not> lookup_bool existingDatasets desired \<longrightarrow> reconcileName existingDatasets desired = desired)
   \<and> (lookup_bool existingDatasets desired \<longrightarrow>
        (\<exists>n. 0 < n
           \<and> reconcileName existingDatasets desired = sprintf_s_d desired n
           \<and> \<not> lookup_bool existingDatasets (sprintf_s_d desired n)
           \<and> (\<forall>k. 0 < k \<and> k < n \<longrightarrow> lookup_bool existingDatasets (sprintf_s_d desired k))))
   \<and> (filepath_Base f1 = ''Sales.pbix'' \<and> filepath_Base f2 = ''Sales.pbix''
        \<and> filepath_Base f3 = ''Sales.pbix'' \<longrightarrow>
        (map fst (snd (importLoop e w [f1, f2, f3] fmempty 0 0 [])) =
           [Call_ImportPBIX w f1 ''Sales'', Call_ImportPBIX w f2 ''Sales_1'',
            Call_ImportPBIX w f3 ''Sales_2''])
        = (returned_success (ImportPBIX_result e [] w f1 ''Sales'')
           \<and> returned_success
                (ImportPBIX_result e [(Call_ImportPBIX w f1 ''Sales'', True)] w f2 ''Sales_1'')))"
proof (intro conjI impI)
  assume "\<not> lookup_bool existingDatasets desired"
  then show "reconcileName existingDatasets desired = desired"
    by (simp add: reconcileName_def)
next
  assume taken: "lookup_bool existingDatasets desired"
  let ?n = "probeCounter existingDatasets desired 1"
  have "0 < ?n"
    using probeCounter_ge [of 1 existingDatasets desired] by simp
  moreover have "reconcileName existingDatasets desired = sprintf_s_d desired ?n"
    using taken by (simp add: reconcileName_def)
  moreover have "\<not> lookup_bool existingDatasets (sprintf_s_d desired ?n)"
    by (rule probeCounter_free)
  moreover have "\<forall>k. 0 < k \<and> k < ?n \<longrightarrow> lookup_bool existingDatasets (sprintf_s_d desired k)"
    using probeCounter_taken_below [of 1 _ existingDatasets desired] by auto
  ultimately show "\<exists>n. 0 < n
           \<and> reconcileName existingDatasets desired = sprintf_s_d desired n
           \<and> \<not> lookup_bool existingDatasets (sprintf_s_d desired n)
           \<and> (\<forall>k. 0 < k \<and> k < n \<longrightarrow> lookup_bool existingDatasets (sprintf_s_d desired k))"
    by blast
next
  assume h: "filepath_Base f1 = ''Sales.pbix'' \<and> filepath_Base f2 = ''Sales.pbix''
        \<and> filepath_Base f3 = ''Sales.pbix''"
  let ?ok1 = "returned_success (ImportPBIX_result e [] w f1 ''Sales'')"
  let ?ok2 = "returned_success
                (ImportPBIX_result e [(Call_ImportPBIX w f1 ''Sales'', True)] w f2 ''Sales_1'')"
  let ?calls = "map fst (snd (importLoop e w [f1, f2, f3] fmempty 0 0 []))"
  let ?want = "[Call_ImportPBIX w f1 ''Sales'', Call_ImportPBIX w f2 ''Sales_1'',
            Call_ImportPBIX w f3 ''Sales_2'']"
  have cand: "candidateName f1 = ''Sales''" "candidateName f2 = ''Sales''"
    "candidateName f3 = ''Sales''"
    using h by (simp_all add: candidateName_def)
  have long: "5 \<le> length (filepath_Base f1)" "5 \<le> length (filepath_Base f2)"
    "5 \<le> length (filepath_Base f3)"
    using h by simp_all
  note calls = importLoop_three_calls [OF long, of e w fmempty]
  show "(?calls = ?want) = (?ok1 \<and> ?ok2)"
  proof (cases ?ok1)
    case False
    then have "?calls ! 1 = Call_ImportPBIX w f2 ''Sales''"
      by (simp add: calls cand reconcile_sales Let_def del: importLoop.simps)
    then have "?calls \<noteq> ?want"
      by auto
    then show ?thesis using False by simp
  next
    case True
    show ?thesis
    proof (cases ?ok2)
      case False
      then have "?calls ! 2 = Call_ImportPBIX w f3 ''Sales_1''"
        using True by (simp add: calls cand reconcile_sales Let_def del: importLoop.simps)
      then have "?calls \<noteq> ?want"
        by auto
      then show ?thesis using False by simp
    next
      case ok2: True
      have "?calls = ?want"
        using True ok2 by (simp add: calls cand reconcile_sales Let_def del: importLoop.simps)
      then show ?thesis using True ok2 by simp
    qed
  qed
qed

theorem reconcileName_spec_witness:
  "lookup_bool (fmupd ''Sales'' True fmempty) ''Sales''
   \<and> \<not> lookup_bool (fmupd ''Sales'' True fmempty) ''Budget''
   \<and> reconcileName (fmupd ''Sales'' True fmempty) ''Budget'' = ''Budget''
   \<and> reconcileName (fmupd ''Sales'' True fmempty) ''Sales'' = ''Sales_1''
   \<and> filepath_Base ''b/x/pbix/Sales.pbix'' = ''Sales.pbix''
   \<and> filepath_Base ''b/y/pbix/Sales.pbix'' = ''Sales.pbix''
   \<and> filepath_Base ''b/z/pbix/Sales.pbix'' = ''Sales.pbix''
   \<and> returned_success (ImportPBIX_result all_succeed_env [] ''ws'' ''b/x/pbix/Sales.pbix'' ''Sales'')
   \<and> returned_success (ImportPBIX_result all_succeed_env
        [(Call_ImportPBIX ''ws'' ''b/x/pbix/Sales.pbix'' ''Sales'', True)] ''ws''
        ''b/y/pbix/Sales.pbix'' ''Sales_1'')
   \<and> map fst (snd (importLoop all_succeed_env ''ws''
        [''b/x/pbix/Sales.pbix'', ''b/y/pbix/Sales.pbix'', ''b/z/pbix/Sales.pbix''] fmempty 0 0 [])) =
          [Call_ImportPBIX ''ws'' ''b/x/pbix/Sales.pbix'' ''Sales'',
           Call_ImportPBIX ''ws'' ''b/y/pbix/Sales.pbix'' ''Sales_1'',
           Call_ImportPBIX ''ws'' ''b/z/pbix/Sales.pbix'' ''Sales_2'']"
proof -
  have b: "filepath_Base ''b/x/pbix/Sales.pbix'' = ''Sales.pbix''"
     "filepath_Base ''b/y/pbix/Sales.pbix'' = ''Sales.pbix''"
     "filepath_Base ''b/z/pbix/Sales.pbix'' = ''Sales.pbix''"
    by (simp_all add: filepath_Base_def)
  have i: "returned_success (ImportPBIX_result all_succeed_env [] ''ws'' ''b/x/pbix/Sales.pbix'' ''Sales'')"
    "returned_success (ImportPBIX_result all_succeed_env
        [(Call_ImportPBIX ''ws'' ''b/x/pbix/Sales.pbix'' ''Sales'', True)] ''ws''
        ''b/y/pbix/Sales.pbix'' ''Sales_1'')"
    by (simp_all add: all_succeed_env_def returned_success_def)
  have t: "lookup_bool (fmupd ''Sales'' True fmempty) ''Sales''"
    "\<not> lookup_bool (fmupd ''Sales'' True fmempty) ''Budget''"
    by (simp_all add: lookup_bool_def)
  have s: "reconcileName (fmupd ''Sales'' True fmempty) ''Sales'' = ''Sales_1''"
    by (simp add: reconcileName_def lookup_bool_def probeCounter.simps sprintf_s_d_def
        itoa.simps digits_def)
  show ?thesis
    using reconcileName_spec [of "fmupd ''Sales'' True fmempty" "''Budget''"
        "''b/x/pbix/Sales.pbix''" "''b/y/pbix/Sales.pbix''" "''b/z/pbix/Sales.pbix''"
        all_succeed_env "''ws''"]
      b i t s by simp
qed

section \<open>Evaluating paths\<close>

lemmas path_simps = filepath_Join_def filepath_Clean_def filepath_Base_def Let_def

lemma join_pbix_dir: "filepath_Join [''b'', ''pbix''] = ''b/pbix''"
  by (simp add: path_simps)

lemma join_pbix_pattern: "filepath_Join [''b/pbix'', ''*.pbix''] = ''b/pbix/*.pbix''"
  by (simp add: path_simps)

lemma join_backup_file: "filepath_Join [''b'', ''complete_backup.json''] = ''b/complete_backup.json''"
  by (simp add: path_simps)


section \<open>The import loop\<close>

lemma reconcileName_free: "\<not> lookup_bool m (reconcileName m d)"
  by (simp add: reconcileName_def probeCounter_free)

lemma lookup_bool_fmupd: "lookup_bool (fmupd k True m) n = (n = k \<or> lookup_bool m n)"
  by (auto simp: lookup_bool_def)

lemma imported_names_Cons:
  "imported_names ((Call_ImportPBIX w f n, ok) # evs)
     = (if ok then n # imported_names evs else imported_names evs)"
  by (simp add: imported_names_def)

lemma importLoop_events:
  "importLoop e w files ex imported failed tr = ((err, ex', imported', failed'), tr') \<Longrightarrow>
   \<exists>evs. tr' = tr @ evs
     \<and> (\<forall>ev\<in>set evs. is_import (fst ev))
     \<and> distinct (imported_names evs)
     \<and> (\<forall>n. lookup_bool ex' n = (lookup_bool ex n \<or> n \<in> set (imported_names evs)))
     \<and> (\<forall>n\<in>set (imported_names evs). \<not> lookup_bool ex n)
     \<and> imported' = imported + length (imported_names evs)
     \<and> failed' = failed + length (filter (\<lambda>ev. \<not> snd ev) evs)"
proof (induction files arbitrary: ex imported failed tr)
  case Nil
  then show ?case by (simp add: imported_names_def)
next
  case (Cons pbixFile files)
  let ?fileName = "filepath_Base pbixFile"
  show ?case
  proof (cases "length ?fileName < 5")
    case True
    with Cons.prems show ?thesis by (simp add: Let_def imported_names_def)
  next
    case False
    let ?final = "reconcileName ex (take (length ?fileName - 5) ?fileName)"
    let ?r = "ImportPBIX_result e tr w pbixFile ?final"
    let ?ev = "(Call_ImportPBIX w pbixFile ?final, returned_success ?r)"
    have free: "\<not> lookup_bool ex ?final"
      by (rule reconcileName_free)
    show ?thesis
    proof (cases "returned_success ?r")
      case True
      with False Cons.prems
      have "importLoop e w files (fmupd ?final True ex) (imported + 1) failed (tr @ [?ev])
          = ((err, ex', imported', failed'), tr')"
        by (simp add: Let_def ImportPBIX_def returned_success_def split: prod.splits)
      from Cons.IH [OF this] obtain evs where evs: "tr' = (tr @ [?ev]) @ evs"
        "\<forall>ev\<in>set evs. is_import (fst ev)"
        "distinct (imported_names evs)"
        "\<forall>n. lookup_bool ex' n = (lookup_bool (fmupd ?final True ex) n \<or> n \<in> set (imported_names evs))"
        "\<forall>n\<in>set (imported_names evs). \<not> lookup_bool (fmupd ?final True ex) n"
        "imported' = imported + 1 + length (imported_names evs)"
        "failed' = failed + length (filter (\<lambda>ev. \<not> snd ev) evs)"
        by blast
      have names: "imported_names (?ev # evs) = ?final # imported_names evs"
        using True by (simp add: imported_names_Cons)
      have "?final \<notin> set (imported_names evs)"
        using evs(5) by (auto simp: lookup_bool_fmupd)
      then have "distinct (imported_names (?ev # evs))"
        using evs(3) names by simp
      moreover have "\<forall>n. lookup_bool ex' n = (lookup_bool ex n \<or> n \<in> set (imported_names (?ev # evs)))"
        using evs(4) names by (auto simp: lookup_bool_fmupd)
      moreover have "\<forall>n\<in>set (imported_names (?ev # evs)). \<not> lookup_bool ex n"
        using evs(5) names free by (auto simp: lookup_bool_fmupd)
      moreover have "imported' = imported + length (imported_names (?ev # evs))"
        using evs(6) names by simp
      moreover have "failed' = failed + length (filter (\<lambda>ev. \<not> snd ev) (?ev # evs))"
        using evs(7) True by simp
      moreover have "tr' = tr @ (?ev # evs)"
        using evs(1) by simp
      moreover have "\<forall>ev\<in>set (?ev # evs). is_import (fst ev)"
        using evs(2) by simp
      ultimately show ?thesis by blast
    next
      case notok: False
      with False Cons.prems
      have "importLoop e w files ex imported (failed + 1) (tr @ [?ev])
          = ((err, ex', imported', failed'), tr')"
        by (auto simp: Let_def ImportPBIX_def returned_success_def split: prod.splits)
      from Cons.IH [OF this] obtain evs where evs: "tr' = (tr @ [?ev]) @ evs"
        "\<forall>ev\<in>set evs. is_import (fst ev)"
        "distinct (imported_names evs)"
        "\<forall>n. lookup_bool ex' n = (lookup_bool ex n \<or> n \<in> set (imported_names evs))"
        "\<forall>n\<in>set (imported_names evs). \<not> lookup_bool ex n"
        "imported' = imported + length (imported_names evs)"
        "failed' = failed + 1 + length (filter (\<lambda>ev. \<not> snd ev) evs)"
        by blast
      have names: "imported_names (?ev # evs) = imported_names evs"
        using notok by (simp add: imported_names_Cons)
      have "failed' = failed + length (filter (\<lambda>ev. \<not> snd ev) (?ev # evs))"
        using evs(7) notok by simp
      moreover have "tr' = tr @ (?ev # evs)"
        using evs(1) by simp
      moreover have "\<forall>ev\<in>set (?ev # evs). is_import (fst ev)"
        using evs(2) by simp
      ultimately show ?thesis using evs(3-6) names by metis
    qed
  qed
qed

lemma reconcileName_unchanged: "\<not> lookup_bool m d \<Longrightarrow> reconcileName m d = d"
  by (simp add: reconcileName_def)

lemma importLoop_attempts:
  "importLoop e w files ex imported failed tr = (res, tr') \<Longrightarrow>
   \<exists>evs. tr' = tr @ evs
     \<and> (\<forall>pre c ok post. evs = pre @ (c, ok) # post \<longrightarrow>
          (\<exists>file. c = Call_ImportPBIX w file (import_name c)
             \<and> \<not> lookup_bool ex (import_name c)
             \<and> import_name c \<notin> set (imported_names pre)
             \<and> (\<not> lookup_bool ex (candidateName file)
                  \<and> candidateName file \<notin> set (imported_names pre)
                \<longrightarrow> import_name c = candidateName file)))"
proof (induction files arbitrary: ex imported failed tr res)
  case Nil
  then show ?case by simp
next
  case (Cons pbixFile files)
  let ?fileName = "filepath_Base pbixFile"
  show ?case
  proof (cases "length ?fileName < 5")
    case True
    with Cons.prems show ?thesis by (simp add: Let_def)
  next
    case False
    let ?final = "reconcileName ex (candidateName pbixFile)"
    let ?r = "ImportPBIX_result e tr w pbixFile ?final"
    let ?ok = "returned_success ?r"
    let ?ev = "(Call_ImportPBIX w pbixFile ?final, ?ok)"
    let ?ex1 = "if ?ok then fmupd ?final True ex else ex"
    have free: "\<not> lookup_bool ex ?final"
      by (rule reconcileName_free)
    have "importLoop e w files ?ex1 (if ?ok then imported + 1 else imported)
            (if ?ok then failed else failed + 1) (tr @ [?ev]) = (res, tr')"
      using False Cons.prems
      by (auto simp: Let_def ImportPBIX_def returned_success_def candidateName_def
          split: prod.splits)
    from Cons.IH [OF this] obtain evs where tr': "tr' = (tr @ [?ev]) @ evs"
      and IH: "\<And>pre c ok post. evs = pre @ (c, ok) # post \<Longrightarrow>
          (\<exists>file. c = Call_ImportPBIX w file (import_name c)
             \<and> \<not> lookup_bool ?ex1 (import_name c)
             \<and> import_name c \<notin> set (imported_names pre)
             \<and> (\<not> lookup_bool ?ex1 (candidateName file)
                  \<and> candidateName file \<notin> set (imported_names pre)
                \<longrightarrow> import_name c = candidateName file))"
      by blast
    have ex1_taken: "lookup_bool ?ex1 n = (lookup_bool ex n \<or> (?ok \<and> n = ?final))" for n
      by (auto simp: lookup_bool_fmupd)
    have names: "set (imported_names (?ev # pre)) = set (imported_names pre) \<union> (if ?ok then {?final} else {})" for pre
      by (simp add: imported_names_Cons)
    have "\<exists>file. c = Call_ImportPBIX w file (import_name c)
             \<and> \<not> lookup_bool ex (import_name c)
             \<and> import_name c \<notin> set (imported_names pre)
             \<and> (\<not> lookup_bool ex (candidateName file)
                  \<and> candidateName file \<notin> set (imported_names pre)
                \<longrightarrow> import_name c = candidateName file)"
      if sp: "?ev # evs = pre @ (c, ok) # post" for pre c ok post
    proof (cases pre)
      case Nil
      with sp have c: "c = Call_ImportPBIX w pbixFile ?final"
        by simp
      show ?thesis
        using c free Nil by (auto simp: imported_names_def reconcileName_unchanged)
    next
      case (Cons ev' pre')
      with sp have ev': "ev' = ?ev" and rest: "evs = pre' @ (c, ok) # post"
        by simp_all
      from IH [OF rest] obtain pf where fl: "c = Call_ImportPBIX w pf (import_name c)"
        "\<not> lookup_bool ?ex1 (import_name c)"
        "import_name c \<notin> set (imported_names pre')"
        "\<not> lookup_bool ?ex1 (candidateName pf) \<and> candidateName pf \<notin> set (imported_names pre')
           \<longrightarrow> import_name c = candidateName pf"
        by blast
      have pre: "set (imported_names pre) = set (imported_names pre') \<union> (if ?ok then {?final} else {})"
        unfolding Cons ev' by (rule names)
      have 1: "\<not> lookup_bool ex (import_name c)"
        using fl(2) ex1_taken by blast
      have 2: "import_name c \<notin> set (imported_names pre)"
        using fl(2,3) ex1_taken pre by (auto split: if_splits)
      have 3: "import_name c = candidateName pf"
        if "\<not> lookup_bool ex (candidateName pf)" "candidateName pf \<notin> set (imported_names pre)"
      proof -
        have "\<not> lookup_bool ?ex1 (candidateName pf)"
          using that pre ex1_taken [of "candidateName pf"] by (auto split: if_splits)
        moreover have "candidateName pf \<notin> set (imported_names pre')"
          using that pre by simp
        ultimately show ?thesis using fl(4) by blast
      qed
      show ?thesis using fl(1) 1 2 3 by blast
    qed
    then show ?thesis using tr' by (intro exI [of _ "?ev # evs"]) simp
  qed
qed


lemma existingOf_target_has_sales: "existingOf (Inr target_has_sales) = fmupd ''Sales'' True fmempty"
  by (simp add: existingOf_def target_has_sales_def)


lemma restoreReportsPBIX_run: "restoreReportsPBIX env_first_import_fails ''ws'' ''b'' [] =
   ((None, fmupd ''Sales_1'' True (fmupd ''Sales'' True fmempty), 1, 1),
    [(Call_Stat ''b/pbix'', True), (Call_Glob ''b/pbix/*.pbix'', True), (Call_GetDatasets ''ws'', True),
     (Call_ImportPBIX ''ws'' ''b/pbix/Sales.pbix'' ''Sales_1'', False),
     (Call_ImportPBIX ''ws'' ''b/pbix/Sales_1.pbix'' ''Sales_1'', True)])"
  by (simp add: restoreReportsPBIX_def join_pbix_dir join_pbix_pattern os_Stat_def filepath_Glob_def GetDatasets_def ImportPBIX_def
      env_first_import_fails_def all_succeed_env_def existingOf_target_has_sales returned_nil_def returned_value_def returned_success_def
      os_IsNotExist_def filepath_Base_def Let_def
      reconcileName_def lookup_bool_def probeCounter.simps sprintf_s_d_def itoa.simps digits_def)


text \<open>
  C1, as stated, fails. The target workspace holds \<open>Sales\<close>; the snapshot holds
  \<open>Sales.pbix\<close> and \<open>Sales_1.pbix\<close>; the import of the first file fails. The
  reconciler returns \<open>Sales_1\<close> for both files: a name is entered into the map only
  after its import has succeeded.
\<close>

theorem final_name_repeated:
  "\<not> distinct (final_names (snd (restoreReportsPBIX env_first_import_fails ''ws'' ''b'' [])))"
  by (simp add: restoreReportsPBIX_run final_names_def import_attempts_def)


text \<open>
  C1, amended. In every run of the import loop the names of the artifacts that were
  imported successfully are pairwise different and none of them was in the map the
  loop started with; when the loop returns, the map holds exactly the names it
  started with and those names. The name given to any import attempt is never a name
  of the starting map nor the name of an earlier successful import of the run, and it
  is the candidate name itself whenever the candidate is neither.
\<close>

theorem importLoop_unique_names:
  assumes run: "importLoop e w files ex imported failed tr = ((err, ex', imported', failed'), tr')"
  shows "\<exists>evs. tr' = tr @ evs
     \<and> distinct (imported_names evs)
     \<and> (\<forall>n\<in>set (imported_names evs). \<not> lookup_bool ex n)
     \<and> (\<forall>n. lookup_bool ex' n = (lookup_bool ex n \<or> n \<in> set (imported_names evs)))
     \<and> (\<forall>pre c ok post. evs = pre @ (c, ok) # post \<longrightarrow>
          (\<exists>file. c = Call_ImportPBIX w file (import_name c)
             \<and> \<not> lookup_bool ex (import_name c)
             \<and> import_name c \<notin> set (imported_names pre)
             \<and> (\<not> lookup_bool ex (candidateName file)
                  \<and> candidateName file \<notin> set (imported_names pre)
                \<longrightarrow> import_name c = candidateName file)))"
proof -
  from importLoop_events [OF run] obtain evs where evs: "tr' = tr @ evs"
    "distinct (imported_names evs)"
    "\<forall>n. lookup_bool ex' n = (lookup_bool ex n \<or> n \<in> set (imported_names evs))"
    "\<forall>n\<in>set (imported_names evs). \<not> lookup_bool ex n"
    by blast
  from importLoop_attempts [OF run] obtain evs' where evs': "tr' = tr @ evs'"
    "\<forall>pre c ok post. evs' = pre @ (c, ok) # post \<longrightarrow>
          (\<exists>file. c = Call_ImportPBIX w file (import_name c)
             \<and> \<not> lookup_bool ex (import_name c)
             \<and> import_name c \<notin> set (imported_names pre)
             \<and> (\<not> lookup_bool ex (candidateName file)
                  \<and> candidateName file \<notin> set (imported_names pre)
                \<longrightarrow> import_name c = candidateName file))"
    by blast
  have "evs' = evs" using evs(1) evs'(1) by simp
  then show ?thesis using evs evs'(2) by blast
qed

theorem importLoop_unique_names_witness:
  "importLoop env_first_import_fails ''ws'' [''b/pbix/Sales.pbix'', ''b/pbix/Sales_1.pbix'']
       (fmupd ''Sales'' True fmempty) 0 0 []
     = ((None, fmupd ''Sales_1'' True (fmupd ''Sales'' True fmempty), 1, 1),
        [(Call_ImportPBIX ''ws'' ''b/pbix/Sales.pbix'' ''Sales_1'', False),
         (Call_ImportPBIX ''ws'' ''b/pbix/Sales_1.pbix'' ''Sales_1'', True)])
   \<and> (\<exists>evs. [(Call_ImportPBIX ''ws'' ''b/pbix/Sales.pbix'' ''Sales_1'', False),
              (Call_ImportPBIX ''ws'' ''b/pbix/Sales_1.pbix'' ''Sales_1'', True)] = [] @ evs
          \<and> distinct (imported_names evs)
          \<and> (\<forall>n\<in>set (imported_names evs). \<not> lookup_bool (fmupd ''Sales'' True fmempty) n)
          \<and> (\<forall>n. lookup_bool (fmupd ''Sales_1'' True (fmupd ''Sales'' True fmempty)) n
                = (lookup_bool (fmupd ''Sales'' True fmempty) n \<or> n \<in> set (imported_names evs)))
          \<and> (\<forall>pre c ok post. evs = pre @ (c, ok) # post \<longrightarrow>
               (\<exists>file. c = Call_ImportPBIX ''ws'' file (import_name c)
                  \<and> \<not> lookup_bool (fmupd ''Sales'' True fmempty) (import_name c)
                  \<and> import_name c \<notin> set (imported_names pre)
                  \<and> (\<not> lookup_bool (fmupd ''Sales'' True fmempty) (candidateName file)
                       \<and> candidateName file \<notin> set (imported_names pre)
                     \<longrightarrow> import_name c = candidateName file))))"
proof -
  have run: "importLoop env_first_import_fails ''ws'' [''b/pbix/Sales.pbix'', ''b/pbix/Sales_1.pbix'']
       (fmupd ''Sales'' True fmempty) 0 0 []
     = ((None, fmupd ''Sales_1'' True (fmupd ''Sales'' True fmempty), 1, 1),
        [(Call_ImportPBIX ''ws'' ''b/pbix/Sales.pbix'' ''Sales_1'', False),
         (Call_ImportPBIX ''ws'' ''b/pbix/Sales_1.pbix'' ''Sales_1'', True)])"
    by (simp add: ImportPBIX_def env_first_import_fails_def all_succeed_env_def
        returned_success_def filepath_Base_def Let_def reconcileName_def lookup_bool_def
        probeCounter.simps sprintf_s_d_def itoa.simps digits_def)
  from importLoop_unique_names [OF run] run show ?thesis
    by blast
qed

section \<open>Refresh-schedule remapping\<close>

lemma schedulesLoop_events:
  "schedulesLoop e w idx schedules restored failed tr = ((restored', failed'), tr') \<Longrightarrow>
   \<exists>evs. tr' = tr @ evs
     \<and> map fst evs =
         map (\<lambda>s. Call_UpdateRefreshSchedule w (the (fmlookup idx (DatasetName s))) (Schedule s))
           (filter (\<lambda>s. fmlookup idx (DatasetName s) \<noteq> None) schedules)
     \<and> restored' = restored + length (filter snd evs)
     \<and> failed' = failed + length (filter (\<lambda>s. fmlookup idx (DatasetName s) = None) schedules)
                  + length (filter (\<lambda>ev. \<not> snd ev) evs)"
proof (induction schedules arbitrary: restored failed tr)
  case Nil
  then show ?case by simp
next
  case (Cons s ss)
  show ?case
  proof (cases "fmlookup idx (DatasetName s)")
    case None
    with Cons.prems have "schedulesLoop e w idx ss restored (failed + 1) tr = ((restored', failed'), tr')"
      by simp
    from Cons.IH [OF this] None show ?thesis by auto
  next
    case (Some newID)
    let ?r = "UpdateRefreshSchedule_result e tr w newID (Schedule s)"
    let ?ev = "(Call_UpdateRefreshSchedule w newID (Schedule s), returned_nil ?r)"
    show ?thesis
    proof (cases ?r)
      case None
      with Some Cons.prems have "schedulesLoop e w idx ss (restored + 1) failed (tr @ [?ev]) = ((restored', failed'), tr')"
        by (simp add: UpdateRefreshSchedule_def Let_def)
      from Cons.IH [OF this] obtain evs where evs: "tr' = (tr @ [?ev]) @ evs"
        "map fst evs =
         map (\<lambda>s. Call_UpdateRefreshSchedule w (the (fmlookup idx (DatasetName s))) (Schedule s))
           (filter (\<lambda>s. fmlookup idx (DatasetName s) \<noteq> None) ss)"
        "restored' = restored + 1 + length (filter snd evs)"
        "failed' = failed + length (filter (\<lambda>s. fmlookup idx (DatasetName s) = None) ss)
                  + length (filter (\<lambda>ev. \<not> snd ev) evs)"
        by blast
      have "snd ?ev" using None by (simp add: returned_nil_def)
      then show ?thesis using evs Some
        by (intro exI [of _ "?ev # evs"]) simp
    next
      case (Some err)
      with \<open>fmlookup idx (DatasetName s) = Some newID\<close> Cons.prems
      have "schedulesLoop e w idx ss restored (failed + 1) (tr @ [?ev]) = ((restored', failed'), tr')"
        by (simp add: UpdateRefreshSchedule_def Let_def)
      from Cons.IH [OF this] obtain evs where evs: "tr' = (tr @ [?ev]) @ evs"
        "map fst evs =
         map (\<lambda>s. Call_UpdateRefreshSchedule w (the (fmlookup idx (DatasetName s))) (Schedule s))
           (filter (\<lambda>s. fmlookup idx (DatasetName s) \<noteq> None) ss)"
        "restored' = restored + length (filter snd evs)"
        "failed' = failed + 1 + length (filter (\<lambda>s. fmlookup idx (DatasetName s) = None) ss)
                  + length (filter (\<lambda>ev. \<not> snd ev) evs)"
        by blast
      have "\<not> snd ?ev" using Some by (simp add: returned_nil_def)
      then show ?thesis using evs \<open>fmlookup idx (DatasetName s) = Some newID\<close>
        by (intro exI [of _ "?ev # evs"]) simp
    qed
  qed
qed


text \<open>
  The index that the loop builds holds, for every name, the id of the last listed
  dataset of that name.
\<close>

lemma indexDatasets_lookup:
  "fmlookup (indexDatasets val m) n =
     (case map_of (rev (concat (map datasetPair val))) n of
        Some i \<Rightarrow> Some i
      | None \<Rightarrow> fmlookup m n)"
proof (induction val arbitrary: m)
  case Nil
  then show ?case by simp
next
  case (Cons item val)
  show ?case
  proof (cases "datasetPair item")
    case Nil
    then have "indexDatasets (item # val) m = indexDatasets val m"
      by (auto simp: datasetPair_def Let_def split: option.splits if_splits)
    then show ?thesis using Cons.IH [of m] Nil by simp
  next
    case (Cons p ps)
    then obtain ds where ds: "assert_object (Some item) = Some ds"
      "getString ds ''name'' \<noteq> []" "getString ds ''id'' \<noteq> []"
      "datasetPair item = [(getString ds ''name'', getString ds ''id'')]"
      by (auto simp: datasetPair_def split: option.splits if_splits)
    then have "indexDatasets (item # val) m
        = indexDatasets val (fmupd (getString ds ''name'') (getString ds ''id'') m)"
      by (simp add: Let_def)
    then show ?thesis
      using Cons.IH [of "fmupd (getString ds ''name'') (getString ds ''id'') m"] ds(4)
      by (simp add: map_add_def split: option.splits)
  qed
qed

lemma indexOf_lookup: "fmlookup (indexOf datasetsResp) n = lastListedID datasetsResp n"
  by (simp add: indexOf_def lastListedID_def listedDatasets_def indexDatasets_lookup
      split: option.splits)

lemma update_calls_of:
  "map (\<lambda>s. Call_UpdateRefreshSchedule w (the (look (DatasetName s))) (Schedule s))
     (filter (\<lambda>s. look (DatasetName s) \<noteq> None) schedules)
   = concat (map (\<lambda>s. case look (DatasetName s) of
                         None \<Rightarrow> []
                       | Some newDatasetID \<Rightarrow> [Call_UpdateRefreshSchedule w newDatasetID (Schedule s)])
               schedules)"
  by (induction schedules) (auto split: option.splits)


text \<open>
  C6. When the datasets of the target workspace can be listed, schedule remapping
  returns no error. After the listing it makes exactly one update call per schedule
  of the snapshot whose dataset name is the name of a listed dataset, in the order of
  the snapshot, to the id of that dataset (of the last one listed with the name) and
  with the schedule's own configuration. A schedule whose dataset name is the name of
  no listed dataset gets no call and adds one to \<open>failed\<close>, as does an update call that
  fails; neither stops the loop. \<open>restored\<close> counts the update calls that succeeded.
\<close>

theorem restoreRefreshSchedules_remap:
  assumes datasets: "GetDatasets_result e tr w = Inr datasetsResp"
    and nonempty: "schedules \<noteq> []"
  shows "(\<exists>restored failed evs.
      restoreRefreshSchedules e w schedules tr
        = ((None, restored, failed), tr @ (Call_GetDatasets w, True) # evs)
      \<and> map fst evs =
          concat (map (\<lambda>s. case lastListedID datasetsResp (DatasetName s) of
                              None \<Rightarrow> []
                            | Some newDatasetID \<Rightarrow>
                                [Call_UpdateRefreshSchedule w newDatasetID (Schedule s)])
                    schedules)
      \<and> restored = length (filter snd evs)
      \<and> failed = length (filter (\<lambda>s. lastListedID datasetsResp (DatasetName s) = None) schedules)
                  + length (filter (\<lambda>ev. \<not> snd ev) evs))
    \<and> (\<forall>name. (lastListedID datasetsResp name = None)
                = (name \<notin> fst ` set (listedDatasets datasetsResp)))
    \<and> (\<forall>name newDatasetID. lastListedID datasetsResp name = Some newDatasetID
          \<longrightarrow> (name, newDatasetID) \<in> set (listedDatasets datasetsResp))"
proof -
  let ?tr1 = "tr @ [(Call_GetDatasets w, True)]"
  let ?look = "lastListedID datasetsResp"
  obtain restored failed tr' where
    loop: "schedulesLoop e w (indexOf datasetsResp) schedules 0 0 ?tr1 = ((restored, failed), tr')"
    by (metis surj_pair)
  from schedulesLoop_events [OF loop] obtain evs where evs: "tr' = ?tr1 @ evs"
    "map fst evs =
          map (\<lambda>s. Call_UpdateRefreshSchedule w (the (?look (DatasetName s))) (Schedule s))
            (filter (\<lambda>s. ?look (DatasetName s) \<noteq> None) schedules)"
    "restored = 0 + length (filter snd evs)"
    "failed = 0 + length (filter (\<lambda>s. ?look (DatasetName s) = None) schedules)
                  + length (filter (\<lambda>ev. \<not> snd ev) evs)"
    unfolding indexOf_lookup by blast
  have run: "restoreRefreshSchedules e w schedules tr = ((None, restored, failed), tr')"
    using datasets nonempty loop
    by (simp add: restoreRefreshSchedules_def GetDatasets_def Let_def returned_value_def)
  have calls: "map fst evs =
          concat (map (\<lambda>s. case ?look (DatasetName s) of
                              None \<Rightarrow> []
                            | Some newDatasetID \<Rightarrow>
                                [Call_UpdateRefreshSchedule w newDatasetID (Schedule s)])
                    schedules)"
    using evs(2) by (simp only: update_calls_of)
  have a: "\<exists>restored failed evs.
      restoreRefreshSchedules e w schedules tr
        = ((None, restored, failed), tr @ (Call_GetDatasets w, True) # evs)
      \<and> map fst evs =
          concat (map (\<lambda>s. case ?look (DatasetName s) of
                              None \<Rightarrow> []
                            | Some newDatasetID \<Rightarrow>
                                [Call_UpdateRefreshSchedule w newDatasetID (Schedule s)])
                    schedules)
      \<and> restored = length (filter snd evs)
      \<and> failed = length (filter (\<lambda>s. ?look (DatasetName s) = None) schedules)
                  + length (filter (\<lambda>ev. \<not> snd ev) evs)"
    using run evs(1,3,4) calls
    by (intro exI [of _ restored] exI [of _ failed] exI [of _ evs]) simp
  have b: "\<forall>name. (?look name = None) = (name \<notin> fst ` set (listedDatasets datasetsResp))"
    by (simp add: lastListedID_def map_of_eq_None_iff)
  have c: "\<forall>name newDatasetID. ?look name = Some newDatasetID
          \<longrightarrow> (name, newDatasetID) \<in> set (listedDatasets datasetsResp)"
  proof (intro allI impI)
    fix name newDatasetID
    assume "?look name = Some newDatasetID"
    then have "(name, newDatasetID) \<in> set (rev (listedDatasets datasetsResp))"
      unfolding lastListedID_def by (rule map_of_SomeD)
    then show "(name, newDatasetID) \<in> set (listedDatasets datasetsResp)"
      by simp
  qed
  show ?thesis using a b c by blast
qed

lemma restoreRefreshSchedules_run:
  "restoreRefreshSchedules env_target_sales ''ws'' (rev (RefreshSchedules snapshot1)) [] =
     ((None, 1, 1),
      [(Call_GetDatasets ''ws'', True),
       (Call_UpdateRefreshSchedule ''ws'' ''new-1'' sales_schedule, True)])"
  by (simp add: restoreRefreshSchedules_def snapshot1_def GetDatasets_def env_target_sales_def
      all_succeed_env_def indexOf_def target_has_sales_def getString_def
      UpdateRefreshSchedule_def Let_def returned_nil_def returned_value_def)

theorem restoreRefreshSchedules_remap_witness:
  "GetDatasets_result env_target_sales [] ''ws'' = Inr target_has_sales
   \<and> rev (RefreshSchedules snapshot1) \<noteq> []
   \<and> listedDatasets target_has_sales = [(''Sales'', ''new-1'')]
   \<and> map DatasetName (rev (RefreshSchedules snapshot1)) = [''Budget'', ''Sales'']
   \<and> restoreRefreshSchedules env_target_sales ''ws'' (rev (RefreshSchedules snapshot1)) [] =
       ((None, 1, 1),
        [(Call_GetDatasets ''ws'', True),
         (Call_UpdateRefreshSchedule ''ws'' ''new-1'' sales_schedule, True)])
   \<and> (\<exists>restored failed evs.
        restoreRefreshSchedules env_target_sales ''ws'' (rev (RefreshSchedules snapshot1)) []
          = ((None, restored, failed), (Call_GetDatasets ''ws'', True) # evs)
        \<and> map fst evs = [Call_UpdateRefreshSchedule ''ws'' ''new-1'' sales_schedule]
        \<and> restored = length (filter snd evs)
        \<and> failed = 1 + length (filter (\<lambda>ev. \<not> snd ev) evs))"
proof -
  have h1: "GetDatasets_result env_target_sales [] ''ws'' = Inr target_has_sales"
    by (simp add: env_target_sales_def all_succeed_env_def)
  have h2: "rev (RefreshSchedules snapshot1) \<noteq> []"
    by (simp add: snapshot1_def)
  have listed: "listedDatasets target_has_sales = [(''Sales'', ''new-1'')]"
    by (simp add: listedDatasets_def target_has_sales_def datasetPair_def getString_def)
  have look: "lastListedID target_has_sales ''Sales'' = Some ''new-1''"
    "lastListedID target_has_sales ''Budget'' = None"
    by (simp_all add: lastListedID_def listed)
  have names: "map DatasetName (rev (RefreshSchedules snapshot1)) = [''Budget'', ''Sales'']"
    by (simp add: snapshot1_def)
  from restoreRefreshSchedules_remap [OF h1 h2] obtain restored failed evs where
    run: "restoreRefreshSchedules env_target_sales ''ws'' (rev (RefreshSchedules snapshot1)) []
        = ((None, restored, failed), [] @ (Call_GetDatasets ''ws'', True) # evs)"
    and calls: "map fst evs =
          concat (map (\<lambda>s. case lastListedID target_has_sales (DatasetName s) of
                              None \<Rightarrow> []
                            | Some newDatasetID \<Rightarrow>
                                [Call_UpdateRefreshSchedule ''ws'' newDatasetID (Schedule s)])
                    (rev (RefreshSchedules snapshot1)))"
    and counts: "restored = length (filter snd evs)"
      "failed = length (filter (\<lambda>s. lastListedID target_has_sales (DatasetName s) = None)
                   (rev (RefreshSchedules snapshot1)))
                  + length (filter (\<lambda>ev. \<not> snd ev) evs)"
    by blast
  have calls': "map fst evs = [Call_UpdateRefreshSchedule ''ws'' ''new-1'' sales_schedule]"
    using calls by (simp add: snapshot1_def look)
  have failed': "failed = 1 + length (filter (\<lambda>ev. \<not> snd ev) evs)"
    using counts(2) by (simp add: snapshot1_def look)
  have "\<exists>restored failed evs.
        restoreRefreshSchedules env_target_sales ''ws'' (rev (RefreshSchedules snapshot1)) []
          = ((None, restored, failed), (Call_GetDatasets ''ws'', True) # evs)
        \<and> map fst evs = [Call_UpdateRefreshSchedule ''ws'' ''new-1'' sales_schedule]
        \<and> restored = length (filter snd evs)
        \<and> failed = 1 + length (filter (\<lambda>ev. \<not> snd ev) evs)"
    using run calls' counts(1) failed'
    by (intro exI [of _ restored] exI [of _ failed] exI [of _ evs]) simp
  then show ?thesis using h1 h2 listed names restoreRefreshSchedules_run by blast
qed

section \<open>The restore run\<close>





lemma RestoreWorkspace_run: "RestoreWorkspace env_no_pbix ''ws'' ''b'' [] =
   (None, [(Call_ReadFile ''b/complete_backup.json'', True), (Call_Stat ''b/pbix'', False), (Call_GetDatasets ''ws'', False)])"
  by (simp add: RestoreWorkspace_def LoadBackup_def join_backup_file join_pbix_dir os_ReadFile_def env_no_pbix_def all_succeed_env_def
      restoreReportsPBIX_def os_Stat_def os_IsNotExist_def restoreRefreshSchedules_def snapshot1_def GetDatasets_def
      Let_def returned_nil_def returned_value_def)

text \<open>
  C5. \<open>RestoreWorkspace\<close> returns the error of \<open>LoadBackup\<close> when loading the snapshot
  fails. When the snapshot loads and \<open>restoreReportsPBIX\<close> returns no error, it
  returns nil, whatever \<open>restoreRefreshSchedules\<close> returns.
\<close>

theorem RestoreWorkspace_result:
  "(\<forall>err tr1. LoadBackup e backupPath tr = (Inl err, tr1)
       \<longrightarrow> fst (RestoreWorkspace e targetWorkspaceID backupPath tr) = Some err)
   \<and> (\<forall>backup tr1 state tr2.
         LoadBackup e backupPath tr = (Inr backup, tr1)
         \<and> restoreReportsPBIX e targetWorkspaceID backupPath tr1 = ((None, state), tr2)
       \<longrightarrow> fst (RestoreWorkspace e targetWorkspaceID backupPath tr) = None)"
  by (simp add: RestoreWorkspace_def split: prod.splits)


theorem RestoreWorkspace_result_witness:
  "LoadBackup env_no_pbix ''b'' [] = (Inr snapshot1, [(Call_ReadFile ''b/complete_backup.json'', True)])
   \<and> restoreReportsPBIX env_no_pbix ''ws'' ''b'' [(Call_ReadFile ''b/complete_backup.json'', True)]
       = ((None, fmempty, 0, 0),
          [(Call_ReadFile ''b/complete_backup.json'', True), (Call_Stat ''b/pbix'', False)])
   \<and> fst (fst (restoreRefreshSchedules env_no_pbix ''ws'' (RefreshSchedules snapshot1)
          [(Call_ReadFile ''b/complete_backup.json'', True), (Call_Stat ''b/pbix'', False)]))
       = Some (Error ''API error 500'')
   \<and> fst (RestoreWorkspace env_no_pbix ''ws'' ''b'' []) = None
   \<and> LoadBackup env_load_fails ''b'' [] = (Inl ErrNotExist, [(Call_ReadFile ''b/complete_backup.json'', False)])
   \<and> fst (RestoreWorkspace env_load_fails ''ws'' ''b'' []) = Some ErrNotExist"
proof -
  have load: "LoadBackup env_no_pbix ''b'' [] = (Inr snapshot1, [(Call_ReadFile ''b/complete_backup.json'', True)])"
    by (simp add: LoadBackup_def join_backup_file os_ReadFile_def env_no_pbix_def all_succeed_env_def
        Let_def returned_value_def)
  have pbix: "restoreReportsPBIX env_no_pbix ''ws'' ''b'' [(Call_ReadFile ''b/complete_backup.json'', True)]
       = ((None, fmempty, 0, 0),
          [(Call_ReadFile ''b/complete_backup.json'', True), (Call_Stat ''b/pbix'', False)])"
    by (simp add: restoreReportsPBIX_def join_pbix_dir os_Stat_def os_IsNotExist_def env_no_pbix_def
        all_succeed_env_def Let_def returned_nil_def)
  have sched: "fst (fst (restoreRefreshSchedules env_no_pbix ''ws'' (RefreshSchedules snapshot1)
          [(Call_ReadFile ''b/complete_backup.json'', True), (Call_Stat ''b/pbix'', False)]))
       = Some (Error ''API error 500'')"
    by (simp add: restoreRefreshSchedules_def snapshot1_def GetDatasets_def env_no_pbix_def
        all_succeed_env_def Let_def)
  have noload: "LoadBackup env_load_fails ''b'' [] = (Inl ErrNotExist, [(Call_ReadFile ''b/complete_backup.json'', False)])"
    by (simp add: LoadBackup_def join_backup_file os_ReadFile_def env_load_fails_def all_succeed_env_def
        Let_def returned_value_def)
  from RestoreWorkspace_result [of env_no_pbix "''b''" "[]" "''ws''"]
    RestoreWorkspace_result [of env_load_fails "''b''" "[]" "''ws''"]
    load pbix sched noload
  show ?thesis by blast
qed



section \<open>The backup run\<close>

subsection \<open>The calls of each step\<close>

lemma backupReports_event:
  "backupReports e w tr = (r, tr') \<Longrightarrow> tr' = tr @ [(Call_GetReports w, \<not> isl r)]"
  by (auto simp: backupReports_def GetReports_def Let_def returned_value_def
      split: sum.splits option.splits)

lemma backupDatasets_event:
  "backupDatasets e w tr = (r, tr') \<Longrightarrow> tr' = tr @ [(Call_GetDatasets w, \<not> isl r)]"
  by (auto simp: backupDatasets_def GetDatasets_def Let_def returned_value_def
      split: sum.splits option.splits)

lemma backupDataflows_event:
  "backupDataflows e w tr = (r, tr') \<Longrightarrow> tr' = tr @ [(Call_GetDataflows w, \<not> isl r)]"
  by (auto simp: backupDataflows_def GetDataflows_def Let_def returned_value_def
      split: sum.splits option.splits)

lemma backupDashboards_event:
  "backupDashboards e w tr = (r, tr') \<Longrightarrow> tr' = tr @ [(Call_GetDashboards w, \<not> isl r)]"
  by (auto simp: backupDashboards_def GetDashboards_def Let_def returned_value_def
      split: sum.splits option.splits)

lemma backupApps_event:
  "backupApps e w tr = (r, tr') \<Longrightarrow>
   \<exists>ok apps. tr' = tr @ [(Call_GetApps, ok)] \<and> r = Inr apps \<and> (\<not> ok \<longrightarrow> apps = [])
     \<and> ok = (\<not> isl (GetApps_result e tr))"
  by (auto simp: backupApps_def GetApps_def Let_def returned_value_def
      split: sum.splits option.splits)

lemma refreshSchedulesLoop_events:
  "refreshSchedulesLoop e w datasets schedules tr = (schedules', tr') \<Longrightarrow>
   \<exists>evs. tr' = tr @ evs
     \<and> map fst evs = map (\<lambda>d. Call_GetRefreshSchedule w (Dataset_ID d)) datasets
     \<and> length schedules' = length schedules + length (filter snd evs)"
proof (induction datasets arbitrary: schedules tr)
  case Nil
  then show ?case by simp
next
  case (Cons d ds)
  let ?r = "GetRefreshSchedule_result e tr w (Dataset_ID d)"
  let ?ev = "(Call_GetRefreshSchedule w (Dataset_ID d), returned_value ?r)"
  show ?case
  proof (cases ?r)
    case (Inl err)
    with Cons.prems have "refreshSchedulesLoop e w ds schedules (tr @ [?ev]) = (schedules', tr')"
      by (simp add: GetRefreshSchedule_def Let_def)
    from Cons.IH [OF this] obtain evs where evs: "tr' = (tr @ [?ev]) @ evs"
      "map fst evs = map (\<lambda>d. Call_GetRefreshSchedule w (Dataset_ID d)) ds"
      "length schedules' = length schedules + length (filter snd evs)"
      by blast
    have "\<not> snd ?ev" using Inl by (simp add: returned_value_def)
    then show ?thesis using evs by (intro exI [of _ "?ev # evs"]) simp
  next
    case (Inr schedule)
    with Cons.prems have "refreshSchedulesLoop e w ds
        (schedules @ [\<lparr>DatasetID = Dataset_ID d, DatasetName = Dataset_Name d, Schedule = schedule\<rparr>])
        (tr @ [?ev]) = (schedules', tr')"
      by (simp add: GetRefreshSchedule_def Let_def)
    from Cons.IH [OF this] obtain evs where evs: "tr' = (tr @ [?ev]) @ evs"
      "map fst evs = map (\<lambda>d. Call_GetRefreshSchedule w (Dataset_ID d)) ds"
      "length schedules' = length schedules + 1 + length (filter snd evs)"
      by auto
    have "snd ?ev" using Inr by (simp add: returned_value_def)
    then show ?thesis using evs by (intro exI [of _ "?ev # evs"]) simp
  qed
qed

lemma map_fst_kind:
  assumes "map fst evs = map f xs" and "\<And>x. P (f x)"
  shows "\<forall>ev\<in>set evs. P (fst ev)"
proof
  fix ev assume "ev \<in> set evs"
  then have "fst ev \<in> set (map fst evs)" by simp
  then have "fst ev \<in> set (map f xs)" by (simp only: assms(1))
  then show "P (fst ev)" using assms(2) by auto
qed

lemma backupRefreshSchedules_events:
  assumes run: "backupRefreshSchedules e w datasets tr = (r, tr')"
  shows "\<exists>evs schedules. tr' = tr @ evs \<and> r = Inr schedules
     \<and> (\<forall>ev\<in>set evs. is_get_schedule (fst ev))
     \<and> length schedules = length (filter snd evs)"
proof (cases "refreshSchedulesLoop e w datasets [] tr")
  case (Pair schedules tr1)
  from refreshSchedulesLoop_events [OF Pair] obtain evs where evs: "tr1 = tr @ evs"
    "map fst evs = map (\<lambda>d. Call_GetRefreshSchedule w (Dataset_ID d)) datasets"
    "length schedules = length ([] :: RefreshSchedule list) + length (filter snd evs)"
    by blast
  have kinds: "\<forall>ev\<in>set evs. is_get_schedule (fst ev)"
    by (rule map_fst_kind [OF evs(2)]) simp
  have r: "r = Inr schedules" and tr': "tr' = tr1"
    using run Pair by (simp_all add: backupRefreshSchedules_def)
  show ?thesis
    using evs(1,3) kinds r tr' by (intro exI [of _ evs] exI [of _ schedules]) simp
qed

lemma exportLoop_events:
  "exportLoop e w pbixDir reports succeeded failed tr = ((succeeded', failed'), tr') \<Longrightarrow>
   \<exists>evs. tr' = tr @ evs
     \<and> map fst evs =
         map (\<lambda>r. Call_ExportReport w (Report_ID r)
                    (filepath_Join [pbixDir, sprintf_pbix (Report_Name r)])) reports
     \<and> succeeded' = succeeded + length (filter snd evs)
     \<and> failed' = failed + length (filter (\<lambda>ev. \<not> snd ev) evs)"
proof (induction reports arbitrary: succeeded failed tr)
  case Nil
  then show ?case by simp
next
  case (Cons r rs)
  let ?path = "filepath_Join [pbixDir, sprintf_pbix (Report_Name r)]"
  let ?res = "ExportReport_result e tr w (Report_ID r) ?path"
  let ?ev = "(Call_ExportReport w (Report_ID r) ?path, returned_success ?res)"
  show ?case
  proof (cases "returned_success ?res")
    case True
    with Cons.prems
    have "exportLoop e w pbixDir rs (succeeded + 1) failed (tr @ [?ev]) = ((succeeded', failed'), tr')"
      by (simp add: Let_def ExportReport_def returned_success_def split: prod.splits)
    from Cons.IH [OF this] obtain evs where evs: "tr' = (tr @ [?ev]) @ evs"
      "map fst evs =
         map (\<lambda>r. Call_ExportReport w (Report_ID r)
                    (filepath_Join [pbixDir, sprintf_pbix (Report_Name r)])) rs"
      "succeeded' = succeeded + 1 + length (filter snd evs)"
      "failed' = failed + length (filter (\<lambda>ev. \<not> snd ev) evs)"
      by blast
    then show ?thesis using True by (intro exI [of _ "?ev # evs"]) simp
  next
    case False
    with Cons.prems
    have "exportLoop e w pbixDir rs succeeded (failed + 1) (tr @ [?ev]) = ((succeeded', failed'), tr')"
      by (auto simp: Let_def ExportReport_def returned_success_def split: prod.splits)
    from Cons.IH [OF this] obtain evs where evs: "tr' = (tr @ [?ev]) @ evs"
      "map fst evs =
         map (\<lambda>r. Call_ExportReport w (Report_ID r)
                    (filepath_Join [pbixDir, sprintf_pbix (Report_Name r)])) rs"
      "succeeded' = succeeded + length (filter snd evs)"
      "failed' = failed + 1 + length (filter (\<lambda>ev. \<not> snd ev) evs)"
      by blast
    then show ?thesis using False by (intro exI [of _ "?ev # evs"]) simp
  qed
qed

lemma backupReportsPBIX_events:
  assumes run: "backupReportsPBIX e w reports backupDir tr = (r, tr')"
  shows "\<exists>evs. tr' = tr @ evs
     \<and> (\<forall>ev\<in>set evs. is_export (fst ev) \<or> fst ev = Call_MkdirAll (filepath_Join [backupDir, ''pbix'']))"
proof (cases "length reports = 0")
  case True
  with run show ?thesis by (simp add: backupReportsPBIX_def)
next
  case False
  let ?pbixDir = "filepath_Join [backupDir, ''pbix'']"
  show ?thesis
  proof (cases "MkdirAll_result e tr ?pbixDir")
    case (Some err)
    with run False have "tr' = tr @ [(Call_MkdirAll ?pbixDir, False)]"
      by (simp add: backupReportsPBIX_def os_MkdirAll_def Let_def returned_nil_def)
    then show ?thesis by simp
  next
    case None
    let ?tr1 = "tr @ [(Call_MkdirAll ?pbixDir, True)]"
    show ?thesis
    proof (cases "exportLoop e w ?pbixDir reports 0 0 ?tr1")
      case (Pair status tr2)
      obtain succeeded failed where status: "status = (succeeded, failed)"
        by (cases status)
      from exportLoop_events [OF Pair [unfolded status]] obtain evs where evs: "tr2 = ?tr1 @ evs"
        "map fst evs =
           map (\<lambda>r. Call_ExportReport w (Report_ID r)
                      (filepath_Join [?pbixDir, sprintf_pbix (Report_Name r)])) reports"
        by blast
      have ex: "\<forall>ev\<in>set evs. is_export (fst ev)"
        by (rule map_fst_kind [OF evs(2)]) simp
      have "tr' = tr2"
        using run False None Pair
        by (simp add: backupReportsPBIX_def os_MkdirAll_def Let_def returned_nil_def)
      then have "tr' = tr @ ((Call_MkdirAll ?pbixDir, True) # evs)"
        using evs(1) by simp
      then show ?thesis using ex
        by (intro exI [of _ "(Call_MkdirAll ?pbixDir, True) # evs"]) simp
    qed
  qed
qed

lemma saveComponent_events:
  "\<exists>evs. snd (saveComponent e dir filename data tr) = tr @ evs \<and> (\<forall>ev\<in>set evs. is_write (fst ev))"
proof (cases "MarshalIndent_result e data")
  case (Inl err)
  then show ?thesis by (simp add: saveComponent_def Let_def)
next
  case (Inr jsonData)
  then have "snd (saveComponent e dir filename data tr)
      = tr @ [(Call_WriteFile (filepath_Join [dir, filename]) jsonData,
               returned_nil (WriteFile_result e tr (filepath_Join [dir, filename]) jsonData))]"
    by (simp add: saveComponent_def os_WriteFile_def Let_def split: option.splits)
  then show ?thesis by simp
qed

lemma SaveBackup_cases:
  assumes run: "SaveBackup e s b tr = (r, tr')"
  shows "\<exists>sv. tr' = tr @ sv \<and>
     ((\<exists>err. r = Inl err \<and> sv = [(Call_MkdirAll (runDir s (WorkspaceID b) (Timestamp b)), False)])
    \<or> (\<exists>err. r = Inl err \<and> MarshalIndent_result e (Payload_CompleteBackup b) = Inl err
          \<and> sv = [(Call_MkdirAll (runDir s (WorkspaceID b) (Timestamp b)), True)])
    \<or> (\<exists>err data. r = Inl err
          \<and> sv = [(Call_MkdirAll (runDir s (WorkspaceID b) (Timestamp b)), True),
                  (Call_WriteFile (filepath_Join [runDir s (WorkspaceID b) (Timestamp b), ''complete_backup.json'']) data, False)])
    \<or> (\<exists>data evs. r = Inr (runDir s (WorkspaceID b) (Timestamp b))
          \<and> sv = (Call_MkdirAll (runDir s (WorkspaceID b) (Timestamp b)), True)
                 # (Call_WriteFile (filepath_Join [runDir s (WorkspaceID b) (Timestamp b), ''complete_backup.json'']) data, True)
                 # evs
          \<and> (\<forall>ev\<in>set evs. is_write (fst ev))))"
proof -
  let ?dir = "runDir s (WorkspaceID b) (Timestamp b)"
  let ?file = "filepath_Join [?dir, ''complete_backup.json'']"
  have dir: "filepath_Join [StorageService_backupPath s, WorkspaceID b, Format (Timestamp b)] = ?dir"
    by (simp add: runDir_def GetBackupPath_def)
  show ?thesis
  proof (cases "MkdirAll_result e tr ?dir")
    case (Some err)
    with run have "r = Inl err" "tr' = tr @ [(Call_MkdirAll ?dir, False)]"
      by (simp_all add: SaveBackup_def dir os_MkdirAll_def Let_def returned_nil_def)
    then show ?thesis by simp
  next
    case None
    let ?tr1 = "tr @ [(Call_MkdirAll ?dir, True)]"
    show ?thesis
    proof (cases "MarshalIndent_result e (Payload_CompleteBackup b)")
      case (Inl err)
      with run None have "r = Inl err" "tr' = ?tr1"
        by (simp_all add: SaveBackup_def dir os_MkdirAll_def Let_def returned_nil_def)
      then show ?thesis using Inl by simp
    next
      case (Inr data)
      let ?tr2 = "\<lambda>ok. ?tr1 @ [(Call_WriteFile ?file data, ok)]"
      show ?thesis
      proof (cases "WriteFile_result e ?tr1 ?file data")
        case (Some err)
        with run None Inr have "r = Inl err" "tr' = ?tr2 False"
          by (simp_all add: SaveBackup_def dir os_MkdirAll_def os_WriteFile_def Let_def returned_nil_def)
        then show ?thesis by simp
      next
        case wr: None
        define tr3 where "tr3 = snd (saveComponent e ?dir ''reports.json'' (Payload_Reports (Reports b)) (?tr2 True))"
        define tr4 where "tr4 = snd (saveComponent e ?dir ''datasets.json'' (Payload_Datasets (Datasets b)) tr3)"
        define tr5 where "tr5 = snd (saveComponent e ?dir ''dataflows.json'' (Payload_Dataflows (Dataflows b)) tr4)"
        define tr6 where "tr6 = snd (saveComponent e ?dir ''dashboards.json'' (Payload_Dashboards (Dashboards b)) tr5)"
        define tr7 where "tr7 = snd (saveComponent e ?dir ''apps.json'' (Payload_Apps (Apps b)) tr6)"
        define tr8 where "tr8 = snd (saveComponent e ?dir ''refresh_schedules.json'' (Payload_RefreshSchedules (RefreshSchedules b)) tr7)"
        define tr9 where "tr9 = snd (saveComponent e ?dir ''workspace_settings.json'' (Payload_WorkspaceSettings (WorkspaceSettings b)) tr8)"
        have res: "r = Inr ?dir" "tr' = tr9"
          using run None Inr wr
          by (simp_all add: SaveBackup_def dir os_MkdirAll_def os_WriteFile_def Let_def returned_nil_def
              tr3_def tr4_def tr5_def tr6_def tr7_def tr8_def tr9_def)
        obtain e3 where e3: "tr3 = ?tr2 True @ e3" "\<forall>ev\<in>set e3. is_write (fst ev)"
          unfolding tr3_def using saveComponent_events by blast
        obtain e4 where e4: "tr4 = tr3 @ e4" "\<forall>ev\<in>set e4. is_write (fst ev)"
          unfolding tr4_def using saveComponent_events by blast
        obtain e5 where e5: "tr5 = tr4 @ e5" "\<forall>ev\<in>set e5. is_write (fst ev)"
          unfolding tr5_def using saveComponent_events by blast
        obtain e6 where e6: "tr6 = tr5 @ e6" "\<forall>ev\<in>set e6. is_write (fst ev)"
          unfolding tr6_def using saveComponent_events by blast
        obtain e7 where e7: "tr7 = tr6 @ e7" "\<forall>ev\<in>set e7. is_write (fst ev)"
          unfolding tr7_def using saveComponent_events by blast
        obtain e8 where e8: "tr8 = tr7 @ e8" "\<forall>ev\<in>set e8. is_write (fst ev)"
          unfolding tr8_def using saveComponent_events by blast
        obtain e9 where e9: "tr9 = tr8 @ e9" "\<forall>ev\<in>set e9. is_write (fst ev)"
          unfolding tr9_def using saveComponent_events by blast
        let ?evs = "e3 @ e4 @ e5 @ e6 @ e7 @ e8 @ e9"
        have "tr' = tr @ (Call_MkdirAll ?dir, True) # (Call_WriteFile ?file data, True) # ?evs"
          using res(2) e3(1) e4(1) e5(1) e6(1) e7(1) e8(1) e9(1) by simp
        moreover have "\<forall>ev\<in>set ?evs. is_write (fst ev)"
          using e3(2) e4(2) e5(2) e6(2) e7(2) e8(2) e9(2) by auto
        ultimately show ?thesis using res(1) by blast
      qed
    qed
  qed
qed

text \<open>
  The three ways a backup run can go: the run directory cannot be created; the
  workspace settings cannot be fetched; or the run collects the components, exports the
  reports and saves, with the four outcomes of \<open>SaveBackup\<close>. The flags \<open>rp\<close>, \<open>ds\<close>,
  \<open>df\<close>, \<open>db\<close>, \<open>ap\<close> tell whether the fetch of the reports, datasets, dataflows,
  dashboards and apps succeeded.
\<close>

lemma BackupWorkspace_cases:
  assumes run: "BackupWorkspace e s backupTime w tr = (res, tr')"
  obtains
    (mkdir) err where "res = Inl err"
      "tr' = tr @ [(Call_MkdirAll (runDir s w backupTime), False)]"
  | (settings) err where "res = Inl err"
      "tr' = tr @ [(Call_MkdirAll (runDir s w backupTime), True), (Call_GetWorkspaceSettings w, False)]"
  | (collected) b rp ds df db ap sch pbix sv where
      "tr' = tr @ [(Call_MkdirAll (runDir s w backupTime), True), (Call_GetWorkspaceSettings w, True),
                   (Call_GetReports w, rp), (Call_GetDatasets w, ds), (Call_GetDataflows w, df),
                   (Call_GetDashboards w, db), (Call_GetApps, ap)] @ sch @ pbix @ sv"
      "\<forall>ev\<in>set sch. is_get_schedule (fst ev)"
      "\<forall>ev\<in>set pbix. is_export (fst ev)
          \<or> fst ev = Call_MkdirAll (filepath_Join [runDir s w backupTime, ''pbix''])"
      "\<not> rp \<longrightarrow> Reports b = []" "\<not> ds \<longrightarrow> Datasets b = []"
      "\<not> df \<longrightarrow> Dataflows b = []" "\<not> db \<longrightarrow> Dashboards b = []"
      "\<not> ap \<longrightarrow> Apps b = []"
      "length (RefreshSchedules b) = length (filter snd sch)"
      "(\<exists>err. res = Inl err \<and> sv = [(Call_MkdirAll (runDir s w backupTime), False)])
        \<or> (\<exists>err. res = Inl err \<and> MarshalIndent_result e (Payload_CompleteBackup b) = Inl err
              \<and> sv = [(Call_MkdirAll (runDir s w backupTime), True)])
        \<or> (\<exists>err data. res = Inl err
              \<and> sv = [(Call_MkdirAll (runDir s w backupTime), True),
                      (Call_WriteFile (filepath_Join [runDir s w backupTime, ''complete_backup.json'']) data, False)])
        \<or> (\<exists>data evs. res = Inr b
              \<and> sv = (Call_MkdirAll (runDir s w backupTime), True)
                     # (Call_WriteFile (filepath_Join [runDir s w backupTime, ''complete_backup.json'']) data, True)
                     # evs
              \<and> (\<forall>ev\<in>set evs. is_write (fst ev)))"
proof -
  let ?dir = "runDir s w backupTime"
  have dir: "filepath_Join [GetBackupPath s, w, Format backupTime] = ?dir"
    by (simp add: runDir_def)
  show ?thesis
  proof (cases "MkdirAll_result e tr ?dir")
    case (Some err)
    with run have "res = Inl err" "tr' = tr @ [(Call_MkdirAll ?dir, False)]"
      by (simp_all add: BackupWorkspace_def dir os_MkdirAll_def Let_def returned_nil_def)
    then show ?thesis by (rule mkdir)
  next
    case None
    let ?tr1 = "tr @ [(Call_MkdirAll ?dir, True)]"
    show ?thesis
    proof (cases "GetWorkspaceSettings_result e ?tr1 w")
      case (Inl err)
      with run None have "res = Inl err"
        "tr' = tr @ [(Call_MkdirAll ?dir, True), (Call_GetWorkspaceSettings w, False)]"
        by (simp_all add: BackupWorkspace_def dir os_MkdirAll_def GetWorkspaceSettings_def Let_def
            returned_nil_def returned_value_def)
      then show ?thesis by (rule settings)
    next
      case (Inr workspaceData)
      let ?tr2 = "?tr1 @ [(Call_GetWorkspaceSettings w, True)]"
      define backup0 where "backup0 =
        \<lparr>Timestamp = backupTime, WorkspaceID = w,
         WorkspaceName = getString workspaceData ''name'',
         Reports = [], Datasets = [], Dataflows = [], Dashboards = [],
         Apps = [], RefreshSchedules = [],
         WorkspaceSettings =
           \<lparr>WorkspaceSettings_ID = w,
            WorkspaceSettings_Name = getString workspaceData ''name'',
            WorkspaceSettings_Type = [],
            WorkspaceSettings_State = [],
            WorkspaceSettings_IsReadOnly = False,
            WorkspaceSettings_Settings = []\<rparr>\<rparr>"
      obtain r3 tr3 where s3: "backupReports e w ?tr2 = (r3, tr3)" by (cases "backupReports e w ?tr2")
      define reports where "reports = (case r3 of Inl err \<Rightarrow> [] | Inr rs \<Rightarrow> rs)"
      define backup1 where "backup1 = (case r3 of Inl err \<Rightarrow> backup0 | Inr rs \<Rightarrow> backup0\<lparr>Reports := rs\<rparr>)"
      obtain r4 tr4 where s4: "backupDatasets e w tr3 = (r4, tr4)" by (cases "backupDatasets e w tr3")
      define datasets where "datasets = (case r4 of Inl err \<Rightarrow> [] | Inr ds \<Rightarrow> ds)"
      define backup2 where "backup2 = (case r4 of Inl err \<Rightarrow> backup1 | Inr ds \<Rightarrow> backup1\<lparr>Datasets := ds\<rparr>)"
      obtain r5 tr5 where s5: "backupDataflows e w tr4 = (r5, tr5)" by (cases "backupDataflows e w tr4")
      define backup3 where "backup3 = (case r5 of Inl err \<Rightarrow> backup2 | Inr dfs \<Rightarrow> backup2\<lparr>Dataflows := dfs\<rparr>)"
      obtain r6 tr6 where s6: "backupDashboards e w tr5 = (r6, tr6)" by (cases "backupDashboards e w tr5")
      define backup4 where "backup4 = (case r6 of Inl err \<Rightarrow> backup3 | Inr dbs \<Rightarrow> backup3\<lparr>Dashboards := dbs\<rparr>)"
      obtain r7 tr7 where s7: "backupApps e w tr6 = (r7, tr7)" by (cases "backupApps e w tr6")
      define backup5 where "backup5 = (case r7 of Inl err \<Rightarrow> backup4 | Inr apps \<Rightarrow> backup4\<lparr>Apps := apps\<rparr>)"
      obtain r8 tr8 where s8: "backupRefreshSchedules e w datasets tr7 = (r8, tr8)"
        by (cases "backupRefreshSchedules e w datasets tr7")
      define backup6 where "backup6 = (case r8 of Inl err \<Rightarrow> backup5
                        | Inr schedules \<Rightarrow> backup5\<lparr>RefreshSchedules := schedules\<rparr>)"
      obtain r9 tr9 where s9: "backupReportsPBIX e w reports ?dir tr8 = (r9, tr9)"
        by (cases "backupReportsPBIX e w reports ?dir tr8")
      obtain r10 tr10 where s10: "SaveBackup e s backup6 tr9 = (r10, tr10)"
        by (cases "SaveBackup e s backup6 tr9")
      have result: "(res, tr') = (case r10 of Inl err \<Rightarrow> (Inl err, tr10) | Inr p \<Rightarrow> (Inr backup6, tr10))"
        using run None Inr s3 s4 s5 s6 s7 s8 s9 s10
        unfolding backup6_def backup5_def backup4_def backup3_def backup2_def backup1_def
          backup0_def reports_def datasets_def
        by (simp add: BackupWorkspace_def dir os_MkdirAll_def GetWorkspaceSettings_def Let_def
            returned_nil_def returned_value_def)
      have t3: "tr3 = ?tr2 @ [(Call_GetReports w, \<not> isl r3)]"
        by (rule backupReports_event [OF s3])
      have t4: "tr4 = tr3 @ [(Call_GetDatasets w, \<not> isl r4)]"
        by (rule backupDatasets_event [OF s4])
      have t5: "tr5 = tr4 @ [(Call_GetDataflows w, \<not> isl r5)]"
        by (rule backupDataflows_event [OF s5])
      have t6: "tr6 = tr5 @ [(Call_GetDashboards w, \<not> isl r6)]"
        by (rule backupDashboards_event [OF s6])
      from backupApps_event [OF s7] obtain ap apps where
        t7: "tr7 = tr6 @ [(Call_GetApps, ap)]" and r7: "r7 = Inr apps" and ap: "\<not> ap \<longrightarrow> apps = []"
        by blast
      from backupRefreshSchedules_events [OF s8] obtain sch schedules where
        t8: "tr8 = tr7 @ sch" and r8: "r8 = Inr schedules"
        and sch: "\<forall>ev\<in>set sch. is_get_schedule (fst ev)"
        and nsch: "length schedules = length (filter snd sch)"
        by blast
      from backupReportsPBIX_events [OF s9] obtain pbix where
        t9: "tr9 = tr8 @ pbix"
        and pbix: "\<forall>ev\<in>set pbix. is_export (fst ev) \<or> fst ev = Call_MkdirAll (filepath_Join [?dir, ''pbix''])"
        by blast
      have keep6: "WorkspaceID backup6 = WorkspaceID backup1" "Timestamp backup6 = Timestamp backup1"
        "Reports backup6 = Reports backup1"
        by (simp_all add: backup6_def backup5_def backup4_def backup3_def backup2_def
            split: sum.splits)
      have keep62: "Datasets backup6 = Datasets backup2"
        by (simp add: backup6_def backup5_def backup4_def backup3_def split: sum.splits)
      have keep63: "Dataflows backup6 = Dataflows backup3"
        by (simp add: backup6_def backup5_def backup4_def split: sum.splits)
      have keep64: "Dashboards backup6 = Dashboards backup4"
        by (simp add: backup6_def backup5_def split: sum.splits)
      have keep21: "Datasets backup1 = []" "Dataflows backup1 = []" "Dashboards backup1 = []"
        by (simp_all add: backup1_def backup0_def split: sum.splits)
      have keep32: "Dataflows backup2 = []" "Dashboards backup2 = []"
        using keep21 by (simp_all add: backup2_def split: sum.splits)
      have keep43: "Dashboards backup3 = []"
        using keep32 by (simp add: backup3_def split: sum.splits)
      have f0: "WorkspaceID backup6 = w" "Timestamp backup6 = backupTime"
        unfolding keep6 by (simp_all add: backup1_def backup0_def split: sum.splits)
      have f1: "\<not> \<not> isl r3 \<longrightarrow> Reports backup6 = []"
        unfolding keep6 by (simp add: backup1_def backup0_def split: sum.splits)
      have f2: "\<not> \<not> isl r4 \<longrightarrow> Datasets backup6 = []"
        unfolding keep62 using keep21 by (simp add: backup2_def split: sum.splits)
      have f3: "\<not> \<not> isl r5 \<longrightarrow> Dataflows backup6 = []"
        unfolding keep63 using keep32 by (simp add: backup3_def split: sum.splits)
      have f4: "\<not> \<not> isl r6 \<longrightarrow> Dashboards backup6 = []"
        unfolding keep64 using keep43 by (simp add: backup4_def split: sum.splits)
      have f5: "\<not> ap \<longrightarrow> Apps backup6 = []"
        using ap by (simp add: backup6_def backup5_def r7 r8)
      have f6: "length (RefreshSchedules backup6) = length (filter snd sch)"
        using nsch by (simp add: backup6_def r8)
      from SaveBackup_cases [OF s10] obtain sv where t10: "tr10 = tr9 @ sv"
        and sv: "(\<exists>err. r10 = Inl err \<and> sv = [(Call_MkdirAll ?dir, False)])
          \<or> (\<exists>err. r10 = Inl err \<and> MarshalIndent_result e (Payload_CompleteBackup backup6) = Inl err
                \<and> sv = [(Call_MkdirAll ?dir, True)])
          \<or> (\<exists>err data. r10 = Inl err
                \<and> sv = [(Call_MkdirAll ?dir, True),
                        (Call_WriteFile (filepath_Join [?dir, ''complete_backup.json'']) data, False)])
          \<or> (\<exists>data evs. r10 = Inr ?dir
                \<and> sv = (Call_MkdirAll ?dir, True)
                       # (Call_WriteFile (filepath_Join [?dir, ''complete_backup.json'']) data, True)
                       # evs
                \<and> (\<forall>ev\<in>set evs. is_write (fst ev)))"
        unfolding f0 by blast
      have res: "res = (case r10 of Inl err \<Rightarrow> Inl err | Inr p \<Rightarrow> Inr backup6)" and tr': "tr' = tr10"
        using result by (simp_all split: sum.splits)
      have sv': "(\<exists>err. res = Inl err \<and> sv = [(Call_MkdirAll ?dir, False)])
          \<or> (\<exists>err. res = Inl err \<and> MarshalIndent_result e (Payload_CompleteBackup backup6) = Inl err
                \<and> sv = [(Call_MkdirAll ?dir, True)])
          \<or> (\<exists>err data. res = Inl err
                \<and> sv = [(Call_MkdirAll ?dir, True),
                        (Call_WriteFile (filepath_Join [?dir, ''complete_backup.json'']) data, False)])
          \<or> (\<exists>data evs. res = Inr backup6
                \<and> sv = (Call_MkdirAll ?dir, True)
                       # (Call_WriteFile (filepath_Join [?dir, ''complete_backup.json'']) data, True)
                       # evs
                \<and> (\<forall>ev\<in>set evs. is_write (fst ev)))"
      proof (cases r10)
        case (Inl err)
        then have "res = Inl err" using res by simp
        then show ?thesis using sv Inl by auto
      next
        case (Inr p)
        then have "res = Inr backup6" using res by simp
        then show ?thesis using sv Inr by auto
      qed
      have trace: "tr' = tr @ [(Call_MkdirAll ?dir, True), (Call_GetWorkspaceSettings w, True),
                     (Call_GetReports w, \<not> isl r3), (Call_GetDatasets w, \<not> isl r4),
                     (Call_GetDataflows w, \<not> isl r5), (Call_GetDashboards w, \<not> isl r6),
                     (Call_GetApps, ap)] @ sch @ pbix @ sv"
        using tr' t10 t9 t8 t7 t6 t5 t4 t3 by simp
      show ?thesis
        by (rule collected [OF trace sch pbix f1 f2 f3 f4 f5 f6 sv'])
    qed
  qed
qed



subsection \<open>Concrete runs\<close>

lemma Format_time1: "Format time1 = ''2024-05-17_09-30-00''"
  by (simp add: Format_def time1_def pad2_def pad4_def itoa.simps digits_def)

lemma runDir_store1: "runDir store1 ''ws'' time1 = ''backups/ws/2024-05-17_09-30-00''"
  by (simp add: runDir_def GetBackupPath_def store1_def Format_time1 filepath_Join_def
      filepath_Clean_def Let_def)

lemma run_dir_files:
  "filepath_Join [''backups/ws/2024-05-17_09-30-00'', ''complete_backup.json'']
     = ''backups/ws/2024-05-17_09-30-00/complete_backup.json''"
  "filepath_Join [''backups/ws/2024-05-17_09-30-00'', ''reports.json'']
     = ''backups/ws/2024-05-17_09-30-00/reports.json''"
  "filepath_Join [''backups/ws/2024-05-17_09-30-00'', ''datasets.json'']
     = ''backups/ws/2024-05-17_09-30-00/datasets.json''"
  "filepath_Join [''backups/ws/2024-05-17_09-30-00'', ''dataflows.json'']
     = ''backups/ws/2024-05-17_09-30-00/dataflows.json''"
  "filepath_Join [''backups/ws/2024-05-17_09-30-00'', ''dashboards.json'']
     = ''backups/ws/2024-05-17_09-30-00/dashboards.json''"
  "filepath_Join [''backups/ws/2024-05-17_09-30-00'', ''apps.json'']
     = ''backups/ws/2024-05-17_09-30-00/apps.json''"
  "filepath_Join [''backups/ws/2024-05-17_09-30-00'', ''refresh_schedules.json'']
     = ''backups/ws/2024-05-17_09-30-00/refresh_schedules.json''"
  "filepath_Join [''backups/ws/2024-05-17_09-30-00'', ''workspace_settings.json'']
     = ''backups/ws/2024-05-17_09-30-00/workspace_settings.json''"
  "filepath_Join [''backups/ws/2024-05-17_09-30-00'', ''pbix'']
     = ''backups/ws/2024-05-17_09-30-00/pbix''"
  by (simp_all add: filepath_Join_def filepath_Clean_def Let_def)

lemma SaveBackup_degraded:
  "SaveBackup env_degraded store1 snapshot_degraded tr =
     (Inr ''backups/ws/2024-05-17_09-30-00'',
      tr @ [(Call_MkdirAll ''backups/ws/2024-05-17_09-30-00'', True),
      (Call_WriteFile ''backups/ws/2024-05-17_09-30-00/complete_backup.json'' [], True),
      (Call_WriteFile ''backups/ws/2024-05-17_09-30-00/reports.json'' [], True),
      (Call_WriteFile ''backups/ws/2024-05-17_09-30-00/datasets.json'' [], True),
      (Call_WriteFile ''backups/ws/2024-05-17_09-30-00/dataflows.json'' [], True),
      (Call_WriteFile ''backups/ws/2024-05-17_09-30-00/dashboards.json'' [], True),
      (Call_WriteFile ''backups/ws/2024-05-17_09-30-00/apps.json'' [], True),
      (Call_WriteFile ''backups/ws/2024-05-17_09-30-00/refresh_schedules.json'' [], True),
      (Call_WriteFile ''backups/ws/2024-05-17_09-30-00/workspace_settings.json'' [], True)])"
proof -
  have dir: "filepath_Join [StorageService_backupPath store1, WorkspaceID snapshot_degraded,
              Format (Timestamp snapshot_degraded)] = ''backups/ws/2024-05-17_09-30-00''"
    using runDir_store1 by (simp add: runDir_def GetBackupPath_def snapshot_degraded_def)
  show ?thesis
    by (simp add: SaveBackup_def Let_def dir run_dir_files saveComponent_def os_MkdirAll_def
        os_WriteFile_def env_degraded_def all_succeed_env_def returned_nil_def)
qed

lemma BackupWorkspace_run_degraded:
  "BackupWorkspace env_degraded store1 time1 ''ws'' [] = (Inr snapshot_degraded, trace_degraded)"
proof -
  have dir: "filepath_Join [GetBackupPath store1, ''ws'', Format time1] = ''backups/ws/2024-05-17_09-30-00''"
    using runDir_store1 by (simp add: runDir_def)
  have fetch: "GetWorkspaceSettings_result env_degraded tr w = Inr [(''name'', JString ''Finance'')]"
     "GetReports_result env_degraded tr w = Inl (Error ''API error 500'')"
     "GetDatasets_result env_degraded tr w = Inr []"
     "GetDataflows_result env_degraded tr w = Inr []"
     "GetDashboards_result env_degraded tr w = Inr []"
     "GetApps_result env_degraded tr = Inl (Error ''API error 403'')"
     "MkdirAll_result env_degraded tr p = None" for tr w p
    by (simp_all add: env_degraded_def all_succeed_env_def)
  show ?thesis
    by (simp add: BackupWorkspace_def Let_def dir os_MkdirAll_def GetWorkspaceSettings_def fetch
        backupReports_def GetReports_def backupDatasets_def GetDatasets_def
        backupDataflows_def GetDataflows_def backupDashboards_def GetDashboards_def
        backupApps_def GetApps_def backupRefreshSchedules_def backupReportsPBIX_def
        returned_nil_def returned_value_def getString_def
        SaveBackup_degraded [unfolded snapshot_degraded_def] snapshot_degraded_def
        trace_degraded_def)
qed

lemma BackupWorkspace_run_settings_down:
  "BackupWorkspace env_settings_down store1 time1 ''ws'' [] =
     (Inl (Error ''API error 401''),
      [(Call_MkdirAll ''backups/ws/2024-05-17_09-30-00'', True), (Call_GetWorkspaceSettings ''ws'', False)])"
proof -
  have dir: "filepath_Join [GetBackupPath store1, ''ws'', Format time1] = ''backups/ws/2024-05-17_09-30-00''"
    using runDir_store1 by (simp add: runDir_def)
  show ?thesis
    by (simp add: BackupWorkspace_def Let_def dir os_MkdirAll_def GetWorkspaceSettings_def
        env_settings_down_def all_succeed_env_def returned_nil_def returned_value_def)
qed

subsection \<open>Degraded success and fatal failure\<close>

text \<open>
  C3. In every backup run: when the workspace-settings fetch fails, the run returns an
  error and writes no file. When the run directory was created, the workspace
  settings were fetched and persistence succeeded (the complete backup could be
  marshalled and its file written), the run returns a snapshot; in it the collection
  of every failed fetch among reports, datasets, dataflows and dashboards is empty,
  and the refresh schedules are empty when every schedule fetch failed. This holds
  for any number of failed fetches.
\<close>

theorem BackupWorkspace_degraded:
  assumes run: "BackupWorkspace e s backupTime w tr = (res, tr')"
  shows "\<exists>evs. tr' = tr @ evs
    \<and> ((Call_GetWorkspaceSettings w, False) \<in> set evs \<longrightarrow>
          (\<exists>err. res = Inl err) \<and> (\<forall>ev\<in>set evs. \<not> is_write (fst ev)))
    \<and> ((Call_MkdirAll (runDir s w backupTime), False) \<notin> set evs
        \<and> (Call_GetWorkspaceSettings w, False) \<notin> set evs
        \<and> (\<forall>b err. MarshalIndent_result e (Payload_CompleteBackup b) \<noteq> Inl err)
        \<and> (\<forall>data. (Call_WriteFile (filepath_Join [runDir s w backupTime, ''complete_backup.json'']) data, False)
               \<notin> set evs)
       \<longrightarrow> (\<exists>b. res = Inr b
             \<and> ((Call_GetReports w, False) \<in> set evs \<longrightarrow> Reports b = [])
             \<and> ((Call_GetDatasets w, False) \<in> set evs \<longrightarrow> Datasets b = [])
             \<and> ((Call_GetDataflows w, False) \<in> set evs \<longrightarrow> Dataflows b = [])
             \<and> ((Call_GetDashboards w, False) \<in> set evs \<longrightarrow> Dashboards b = [])
             \<and> ((\<forall>ev\<in>set evs. is_get_schedule (fst ev) \<longrightarrow> \<not> snd ev) \<longrightarrow> RefreshSchedules b = [])))"
proof -
  let ?dir = "runDir s w backupTime"
  let ?file = "filepath_Join [?dir, ''complete_backup.json'']"
  from run show ?thesis
  proof (cases rule: BackupWorkspace_cases)
    case (mkdir err)
    then show ?thesis by simp
  next
    case (settings err)
    then show ?thesis by simp
  next
    case (collected b rp ds df db ap sch pbix sv)
    let ?head = "[(Call_MkdirAll ?dir, True), (Call_GetWorkspaceSettings w, True),
                     (Call_GetReports w, rp), (Call_GetDatasets w, ds), (Call_GetDataflows w, df),
                     (Call_GetDashboards w, db), (Call_GetApps, ap)]"
    let ?evs = "?head @ sch @ pbix @ sv"
    have sv_kind: "\<forall>ev\<in>set sv. is_mkdir (fst ev) \<or> is_write (fst ev)"
      using collected(10) by fastforce
    have no_settings: "(Call_GetWorkspaceSettings w, False) \<notin> set ?evs"
      using collected(2,3) sv_kind by auto
    have success: "\<exists>b'. res = Inr b'
             \<and> ((Call_GetReports w, False) \<in> set ?evs \<longrightarrow> Reports b' = [])
             \<and> ((Call_GetDatasets w, False) \<in> set ?evs \<longrightarrow> Datasets b' = [])
             \<and> ((Call_GetDataflows w, False) \<in> set ?evs \<longrightarrow> Dataflows b' = [])
             \<and> ((Call_GetDashboards w, False) \<in> set ?evs \<longrightarrow> Dashboards b' = [])
             \<and> ((\<forall>ev\<in>set ?evs. is_get_schedule (fst ev) \<longrightarrow> \<not> snd ev) \<longrightarrow> RefreshSchedules b' = [])"
      if nofatal: "(Call_MkdirAll ?dir, False) \<notin> set ?evs"
        "\<forall>b err. MarshalIndent_result e (Payload_CompleteBackup b) \<noteq> Inl err"
        "\<forall>data. (Call_WriteFile ?file data, False) \<notin> set ?evs"
    proof -
      have res: "res = Inr b"
        using collected(10) nofatal by auto
      have 1: "(Call_GetReports w, False) \<in> set ?evs \<longrightarrow> Reports b = []"
        using collected(2,3,4) sv_kind by auto
      have 2: "(Call_GetDatasets w, False) \<in> set ?evs \<longrightarrow> Datasets b = []"
        using collected(2,3,5) sv_kind by auto
      have 3: "(Call_GetDataflows w, False) \<in> set ?evs \<longrightarrow> Dataflows b = []"
        using collected(2,3,6) sv_kind by auto
      have 4: "(Call_GetDashboards w, False) \<in> set ?evs \<longrightarrow> Dashboards b = []"
        using collected(2,3,7) sv_kind by auto
      have 5: "RefreshSchedules b = []" if "\<forall>ev\<in>set ?evs. is_get_schedule (fst ev) \<longrightarrow> \<not> snd ev"
      proof -
        have "\<forall>ev\<in>set sch. \<not> snd ev"
          using that collected(2) by auto
        then have "filter snd sch = []"
          by (simp add: filter_empty_conv)
        then show ?thesis using collected(9) by simp
      qed
      show ?thesis using res 1 2 3 4 5 by blast
    qed
    show ?thesis
      using collected(1) no_settings success by (intro exI [of _ ?evs]) blast
  qed
qed


theorem BackupWorkspace_degraded_witness:
  "BackupWorkspace env_degraded store1 time1 ''ws'' [] = (Inr snapshot_degraded, trace_degraded)
   \<and> (Call_MkdirAll (runDir store1 ''ws'' time1), False) \<notin> set trace_degraded
   \<and> (Call_GetWorkspaceSettings ''ws'', False) \<notin> set trace_degraded
   \<and> (\<forall>b err. MarshalIndent_result env_degraded (Payload_CompleteBackup b) \<noteq> Inl err)
   \<and> (\<forall>data. (Call_WriteFile (filepath_Join [runDir store1 ''ws'' time1, ''complete_backup.json'']) data, False)
          \<notin> set trace_degraded)
   \<and> (Call_GetReports ''ws'', False) \<in> set trace_degraded
   \<and> \<not> (\<exists>ev\<in>set trace_degraded. is_get_schedule (fst ev) \<and> snd ev)
   \<and> Reports snapshot_degraded = []
   \<and> RefreshSchedules snapshot_degraded = []
   \<and> BackupWorkspace env_settings_down store1 time1 ''ws'' [] =
       (Inl (Error ''API error 401''),
        [(Call_MkdirAll ''backups/ws/2024-05-17_09-30-00'', True), (Call_GetWorkspaceSettings ''ws'', False)])
   \<and> (Call_GetWorkspaceSettings ''ws'', False)
       \<in> set [(Call_MkdirAll ''backups/ws/2024-05-17_09-30-00'', True), (Call_GetWorkspaceSettings ''ws'', False)]
   \<and> \<not> (\<exists>ev\<in>set [(Call_MkdirAll ''backups/ws/2024-05-17_09-30-00'', True), (Call_GetWorkspaceSettings ''ws'', False)].
         is_write (fst ev))"
proof -
  note run1 = BackupWorkspace_run_degraded
  note run2 = BackupWorkspace_run_settings_down
  have h1: "(Call_MkdirAll (runDir store1 ''ws'' time1), False) \<notin> set trace_degraded"
    "(Call_GetWorkspaceSettings ''ws'', False) \<notin> set trace_degraded"
    "\<forall>data. (Call_WriteFile (filepath_Join [runDir store1 ''ws'' time1, ''complete_backup.json'']) data, False)
          \<notin> set trace_degraded"
    "(Call_GetReports ''ws'', False) \<in> set trace_degraded"
    "\<not> (\<exists>ev\<in>set trace_degraded. is_get_schedule (fst ev) \<and> snd ev)"
    by (simp_all add: trace_degraded_def runDir_store1)
  have h2: "\<forall>b err. MarshalIndent_result env_degraded (Payload_CompleteBackup b) \<noteq> Inl err"
    by (simp add: env_degraded_def all_succeed_env_def)
  have m2: "(Call_GetWorkspaceSettings ''ws'', False)
       \<in> set [(Call_MkdirAll ''backups/ws/2024-05-17_09-30-00'', True), (Call_GetWorkspaceSettings ''ws'', False)]"
    by simp
  from BackupWorkspace_degraded [OF run1] h1 h2
  have c1: "Reports snapshot_degraded = [] \<and> RefreshSchedules snapshot_degraded = []"
    by auto
  from BackupWorkspace_degraded [OF run2] m2
  have c2: "\<not> (\<exists>ev\<in>set [(Call_MkdirAll ''backups/ws/2024-05-17_09-30-00'', True), (Call_GetWorkspaceSettings ''ws'', False)].
         is_write (fst ev))"
    by auto
  show ?thesis
    using run1 run2 h1 h2 m2 c1 c2 by blast
qed


text \<open>
  C9. \<open>backupApps\<close> never returns an error, and returns the empty list when the apps
  fetch fails. A backup run in which the apps fetch failed, and whose persistence
  succeeded, returns a snapshot whose apps are empty.
\<close>

theorem backupApps_optional:
  "(\<exists>apps. fst (backupApps e w tr0) = Inr apps \<and> (isl (GetApps_result e tr0) \<longrightarrow> apps = []))
   \<and> (BackupWorkspace e s backupTime w tr = (res, tr') \<longrightarrow>
       (\<exists>evs. tr' = tr @ evs
          \<and> ((Call_GetApps, False) \<in> set evs
              \<and> (Call_MkdirAll (runDir s w backupTime), False) \<notin> set evs
              \<and> (\<forall>b err. MarshalIndent_result e (Payload_CompleteBackup b) \<noteq> Inl err)
              \<and> (\<forall>data. (Call_WriteFile (filepath_Join [runDir s w backupTime, ''complete_backup.json'']) data, False)
                     \<notin> set evs)
             \<longrightarrow> (\<exists>b. res = Inr b \<and> Apps b = []))))"
proof (intro conjI impI)
  obtain r tr1 where apps: "backupApps e w tr0 = (r, tr1)"
    by (cases "backupApps e w tr0")
  from backupApps_event [OF apps] show "\<exists>apps. fst (backupApps e w tr0) = Inr apps \<and> (isl (GetApps_result e tr0) \<longrightarrow> apps = [])"
    using apps by auto
next
  assume run: "BackupWorkspace e s backupTime w tr = (res, tr')"
  let ?dir = "runDir s w backupTime"
  let ?file = "filepath_Join [?dir, ''complete_backup.json'']"
  from run show "\<exists>evs. tr' = tr @ evs
          \<and> ((Call_GetApps, False) \<in> set evs
              \<and> (Call_MkdirAll ?dir, False) \<notin> set evs
              \<and> (\<forall>b err. MarshalIndent_result e (Payload_CompleteBackup b) \<noteq> Inl err)
              \<and> (\<forall>data. (Call_WriteFile ?file data, False) \<notin> set evs)
             \<longrightarrow> (\<exists>b. res = Inr b \<and> Apps b = []))"
  proof (cases rule: BackupWorkspace_cases)
    case (mkdir err)
    then show ?thesis by simp
  next
    case (settings err)
    then show ?thesis by simp
  next
    case (collected b rp ds df db ap sch pbix sv)
    let ?evs = "[(Call_MkdirAll ?dir, True), (Call_GetWorkspaceSettings w, True),
                     (Call_GetReports w, rp), (Call_GetDatasets w, ds), (Call_GetDataflows w, df),
                     (Call_GetDashboards w, db), (Call_GetApps, ap)] @ sch @ pbix @ sv"
    have sv_kind: "\<forall>ev\<in>set sv. is_mkdir (fst ev) \<or> is_write (fst ev)"
      using collected(10) by fastforce
    have "\<exists>b'. res = Inr b' \<and> Apps b' = []"
      if h: "(Call_GetApps, False) \<in> set ?evs" "(Call_MkdirAll ?dir, False) \<notin> set ?evs"
        "\<forall>b err. MarshalIndent_result e (Payload_CompleteBackup b) \<noteq> Inl err"
        "\<forall>data. (Call_WriteFile ?file data, False) \<notin> set ?evs"
    proof -
      have "res = Inr b"
        using collected(10) h(2,3,4) by auto
      moreover have "\<not> ap"
        using h(1) collected(2,3) sv_kind by auto
      ultimately show ?thesis using collected(8) by blast
    qed
    then show ?thesis
      using collected(1) by (intro exI [of _ ?evs]) blast
  qed
qed

theorem backupApps_optional_witness:
  "isl (GetApps_result env_degraded [])
   \<and> fst (backupApps env_degraded ''ws'' []) = Inr []
   \<and> BackupWorkspace env_degraded store1 time1 ''ws'' [] = (Inr snapshot_degraded, trace_degraded)
   \<and> (Call_GetApps, False) \<in> set trace_degraded
   \<and> (Call_MkdirAll (runDir store1 ''ws'' time1), False) \<notin> set trace_degraded
   \<and> (\<forall>b err. MarshalIndent_result env_degraded (Payload_CompleteBackup b) \<noteq> Inl err)
   \<and> (\<forall>data. (Call_WriteFile (filepath_Join [runDir store1 ''ws'' time1, ''complete_backup.json'']) data, False)
          \<notin> set trace_degraded)
   \<and> Apps snapshot_degraded = []"
proof -
  note run1 = BackupWorkspace_run_degraded
  have a: "isl (GetApps_result env_degraded [])"
    by (simp add: env_degraded_def all_succeed_env_def)
  have h1: "(Call_GetApps, False) \<in> set trace_degraded"
    "(Call_MkdirAll (runDir store1 ''ws'' time1), False) \<notin> set trace_degraded"
    "\<forall>data. (Call_WriteFile (filepath_Join [runDir store1 ''ws'' time1, ''complete_backup.json'']) data, False)
          \<notin> set trace_degraded"
    by (simp_all add: trace_degraded_def runDir_store1)
  have h2: "\<forall>b err. MarshalIndent_result env_degraded (Payload_CompleteBackup b) \<noteq> Inl err"
    by (simp add: env_degraded_def all_succeed_env_def)
  note inst = backupApps_optional [of env_degraded "''ws''" "[]" store1 time1 "[]"
      "Inr snapshot_degraded" trace_degraded]
  from inst a have c0: "fst (backupApps env_degraded ''ws'' []) = Inr []"
    by auto
  from inst run1 h1 h2 have c1: "Apps snapshot_degraded = []"
    by auto
  show ?thesis
    using a c0 run1 h1 h2 c1 by blast
qed


section \<open>A failed run and the store\<close>

lemma prefixes_run_dir:
  "path_prefixes ''backups/ws/2024-05-17_09-30-00''
     = [''backups'', ''backups/ws'', ''backups/ws/2024-05-17_09-30-00'']"
  by (simp add: path_prefixes_def upt_rec)

lemma BackupWorkspace_run_sim_settings_down:
  "BackupWorkspace env_sim_settings_down store1 time1 ''ws'' [] =
     (Inl (Error ''API error 401''),
      [(Call_MkdirAll ''backups/ws/2024-05-17_09-30-00'', True), (Call_GetWorkspaceSettings ''ws'', False)])"
proof -
  have dir: "filepath_Join [GetBackupPath store1, ''ws'', Format time1] = ''backups/ws/2024-05-17_09-30-00''"
    using runDir_store1 by (simp add: runDir_def)
  show ?thesis
    by (simp add: BackupWorkspace_def Let_def dir os_MkdirAll_def GetWorkspaceSettings_def
        env_sim_settings_down_def sim_env_def returned_nil_def returned_value_def)
qed

lemma dirs_after_failed_run: "dirs_of [(Call_MkdirAll ''backups/ws/2024-05-17_09-30-00'', True), (Call_GetWorkspaceSettings ''ws'', False)]
   = [''backups'', ''backups/ws'', ''backups/ws/2024-05-17_09-30-00'']"
  by (simp add: prefixes_run_dir)

lemma ListBackups_before_failed_run: "ListBackups env_sim_settings_down store1 ''ws'' [] = (Inr [], [(Call_Stat ''backups/ws'', False)])"
  by (simp add: ListBackups_def Let_def store1_def filepath_Join_def filepath_Clean_def os_Stat_def
      env_sim_settings_down_def sim_env_def os_IsNotExist_def returned_nil_def)

lemma ListBackups_after_failed_run:
  "ListBackups env_sim_settings_down store1 ''ws''
     [(Call_MkdirAll ''backups/ws/2024-05-17_09-30-00'', True), (Call_GetWorkspaceSettings ''ws'', False)]
   = (Inr [''backups/ws/2024-05-17_09-30-00''],
      [(Call_MkdirAll ''backups/ws/2024-05-17_09-30-00'', True), (Call_GetWorkspaceSettings ''ws'', False),
       (Call_Stat ''backups/ws'', True), (Call_ReadDir ''backups/ws'', True)])"
  by (simp add: ListBackups_def Let_def store1_def filepath_Join_def filepath_Clean_def os_Stat_def
      os_ReadDir_def env_sim_settings_down_def sim_env_def os_IsNotExist_def returned_nil_def
      returned_value_def prefixes_run_dir entries_of_def parent_dir_def filepath_Base_def)


text \<open>
  C4. The run directory is created before the workspace settings are fetched, and is
  not removed when the fetch fails. In a store that holds no backup of workspace
  \<open>ws\<close>, a run whose settings fetch fails returns the error; before the run
  \<open>ListBackups\<close> returns the empty list; after it \<open>ListBackups\<close> returns the directory
  of the failed run and \<open>GetLatestBackup\<close> returns it as the latest backup, although it
  holds no \<open>complete_backup.json\<close> and \<open>LoadBackup\<close> fails on it.
\<close>

theorem failed_backup_is_listed:
  "fst (BackupWorkspace env_sim_settings_down store1 time1 ''ws'' []) = Inl (Error ''API error 401'')
   \<and> fst (ListBackups env_sim_settings_down store1 ''ws'' []) = Inr []
   \<and> fst (ListBackups env_sim_settings_down store1 ''ws''
        (snd (BackupWorkspace env_sim_settings_down store1 time1 ''ws'' [])))
      = Inr [''backups/ws/2024-05-17_09-30-00'']
   \<and> fst (GetLatestBackup env_sim_settings_down store1 ''ws''
        (snd (BackupWorkspace env_sim_settings_down store1 time1 ''ws'' [])))
      = Inr ''backups/ws/2024-05-17_09-30-00''
   \<and> fst (LoadBackup env_sim_settings_down ''backups/ws/2024-05-17_09-30-00''
        (snd (BackupWorkspace env_sim_settings_down store1 time1 ''ws'' [])))
      = Inl ErrNotExist"
proof -
  have latest: "fst (GetLatestBackup env_sim_settings_down store1 ''ws''
      [(Call_MkdirAll ''backups/ws/2024-05-17_09-30-00'', True), (Call_GetWorkspaceSettings ''ws'', False)])
      = Inr ''backups/ws/2024-05-17_09-30-00''"
    by (simp add: GetLatestBackup_def ListBackups_after_failed_run)
  have load: "fst (LoadBackup env_sim_settings_down ''backups/ws/2024-05-17_09-30-00''
      [(Call_MkdirAll ''backups/ws/2024-05-17_09-30-00'', True), (Call_GetWorkspaceSettings ''ws'', False)])
      = Inl ErrNotExist"
    by (simp add: LoadBackup_def Let_def os_ReadFile_def env_sim_settings_down_def sim_env_def)
  show ?thesis
    by (simp add: BackupWorkspace_run_sim_settings_down ListBackups_before_failed_run ListBackups_after_failed_run latest load)
qed


section \<open>Backup followed by restore\<close>

subsection \<open>The backup of two reports of one name\<close>







subsection \<open>The restore of its snapshot\<close>











subsection \<open>One import per listed file\<close>







section \<open>Artifact paths\<close>

text \<open>
  C8, as stated, fails. The display name \<open>../Q1\<close> is used as it is: the export is directed
  to \<open><run-dir>/Q1.pbix\<close>, outside the artifact directory, which is no path of the form
  \<open><run-dir>/pbix/<name>.pbix\<close> with a file-system-safe name.
\<close>

theorem artifact_outside_pbix_dir:
  "snd (backupReportsPBIX all_succeed_env ''ws'' [report_parent_dir] ''backups/ws/2024-05-17_09-30-00'' [])
     = [(Call_MkdirAll ''backups/ws/2024-05-17_09-30-00/pbix'', True),
        (Call_ExportReport ''ws'' ''r9'' ''backups/ws/2024-05-17_09-30-00/Q1.pbix'', True)]
   \<and> \<not> spec_sanitized_artifact_path ''backups/ws/2024-05-17_09-30-00''
         ''backups/ws/2024-05-17_09-30-00/Q1.pbix''"
proof -
  have p: "filepath_Join [''backups/ws/2024-05-17_09-30-00/pbix'', sprintf_pbix ''../Q1'']
      = ''backups/ws/2024-05-17_09-30-00/Q1.pbix''"
    by (simp add: filepath_Join_def filepath_Clean_def sprintf_pbix_def Let_def)
  have d: "filepath_Join [''backups/ws/2024-05-17_09-30-00'', ''pbix''] = ''backups/ws/2024-05-17_09-30-00/pbix''"
    by (simp add: filepath_Join_def filepath_Clean_def Let_def)
  have run: "snd (backupReportsPBIX all_succeed_env ''ws'' [report_parent_dir] ''backups/ws/2024-05-17_09-30-00'' [])
     = [(Call_MkdirAll ''backups/ws/2024-05-17_09-30-00/pbix'', True),
        (Call_ExportReport ''ws'' ''r9'' ''backups/ws/2024-05-17_09-30-00/Q1.pbix'', True)]"
    by (simp add: backupReportsPBIX_def d p os_MkdirAll_def ExportReport_def all_succeed_env_def
        report_parent_dir_def Let_def returned_nil_def returned_success_def)
  have "\<not> spec_sanitized_artifact_path ''backups/ws/2024-05-17_09-30-00''
         ''backups/ws/2024-05-17_09-30-00/Q1.pbix''"
    by (simp add: spec_sanitized_artifact_path_def)
  with run show ?thesis by simp
qed


text \<open>
  C8, amended. When the report list is not empty and the artifact directory has been
  created, \<open>backupReportsPBIX\<close> makes one export call per report, in the order of the
  list, and directs the export of each report to
  \<open>filepath.Join(<run-dir>/pbix, <display name> + ".pbix")\<close>, the display name being used
  as it is; the two counters returned are the numbers of exports that succeeded and
  failed.
\<close>

theorem backupReportsPBIX_paths:
  assumes nonempty: "reports \<noteq> []"
    and mkdir: "MkdirAll_result e tr (filepath_Join [backupDir, ''pbix'']) = None"
  shows "\<exists>evs. backupReportsPBIX e w reports backupDir tr
        = (Inr (length (filter snd evs), length (filter (\<lambda>ev. \<not> snd ev) evs)),
           tr @ (Call_MkdirAll (filepath_Join [backupDir, ''pbix'']), True) # evs)
     \<and> map fst evs =
         map (\<lambda>r. Call_ExportReport w (Report_ID r)
                    (filepath_Join [filepath_Join [backupDir, ''pbix''], Report_Name r @ ''.pbix'']))
           reports"
proof -
  let ?pbixDir = "filepath_Join [backupDir, ''pbix'']"
  let ?tr1 = "tr @ [(Call_MkdirAll ?pbixDir, True)]"
  obtain succeeded failed tr2 where
    loop: "exportLoop e w ?pbixDir reports 0 0 ?tr1 = ((succeeded, failed), tr2)"
    by (metis surj_pair)
  from exportLoop_events [OF loop] obtain evs where evs: "tr2 = ?tr1 @ evs"
    "map fst evs =
         map (\<lambda>r. Call_ExportReport w (Report_ID r)
                    (filepath_Join [?pbixDir, sprintf_pbix (Report_Name r)])) reports"
    "succeeded = 0 + length (filter snd evs)"
    "failed = 0 + length (filter (\<lambda>ev. \<not> snd ev) evs)"
    by blast
  have "backupReportsPBIX e w reports backupDir tr = (Inr (succeeded, failed), tr2)"
    using nonempty mkdir loop
    by (simp add: backupReportsPBIX_def os_MkdirAll_def Let_def returned_nil_def)
  then show ?thesis
    using evs by (intro exI [of _ evs]) (simp add: sprintf_pbix_def)
qed

theorem backupReportsPBIX_paths_witness:
  "[report_sales ''r1''] \<noteq> []
   \<and> MkdirAll_result all_succeed_env [] (filepath_Join [''backups/src/2024-05-17_09-30-00'', ''pbix'']) = None
   \<and> filepath_Join [filepath_Join [''backups/src/2024-05-17_09-30-00'', ''pbix''],
        Report_Name (report_sales ''r1'') @ ''.pbix'']
       = ''backups/src/2024-05-17_09-30-00/pbix/Sales.pbix''
   \<and> (\<exists>evs. backupReportsPBIX all_succeed_env ''src'' [report_sales ''r1'']
              ''backups/src/2024-05-17_09-30-00'' []
          = (Inr (length (filter snd evs), length (filter (\<lambda>ev. \<not> snd ev) evs)),
             [] @ (Call_MkdirAll (filepath_Join [''backups/src/2024-05-17_09-30-00'', ''pbix'']), True) # evs)
        \<and> map fst evs =
            map (\<lambda>r. Call_ExportReport ''src'' (Report_ID r)
                       (filepath_Join [filepath_Join [''backups/src/2024-05-17_09-30-00'', ''pbix''],
                          Report_Name r @ ''.pbix'']))
              [report_sales ''r1''])"
proof -
  have h1: "[report_sales ''r1''] \<noteq> []"
    by simp
  have h2: "MkdirAll_result all_succeed_env []
      (filepath_Join [''backups/src/2024-05-17_09-30-00'', ''pbix'']) = None"
    by (simp add: all_succeed_env_def)
  have p: "filepath_Join [filepath_Join [''backups/src/2024-05-17_09-30-00'', ''pbix''],
        Report_Name (report_sales ''r1'') @ ''.pbix'']
       = ''backups/src/2024-05-17_09-30-00/pbix/Sales.pbix''"
    by (simp add: filepath_Join_def filepath_Clean_def report_sales_def Let_def)
  from backupReportsPBIX_paths [OF h1 h2, of "''src''"] h1 h2 p show ?thesis
    by blast
qed

end
